theory Spec2Isabelle
  imports Complex_Main
begin

section \<open>JavaScript numbers\<close>

text \<open>
  The program computes on JavaScript numbers.  They are modelled as exact reals; the value
  NaN (and \<open>undefined\<close>, which the arithmetic turns into NaN) is \<open>None\<close> where the source tests
  for it.  Rounding of IEEE doubles is outside the model.
\<close>

text \<open>JavaScript's \<open>a % b\<close>: the remainder of the division truncated towards zero, so the
  result has the sign of \<open>a\<close>.\<close>

definition trunc :: "real \<Rightarrow> int" where
  "trunc x = (if 0 \<le> x then \<lfloor>x\<rfloor> else \<lceil>x\<rceil>)"

definition jsmod :: "real \<Rightarrow> real \<Rightarrow> real" where
  "jsmod a b = a - b * of_int (trunc (a / b))"

section \<open>Digits\<close>

text \<open>Decimal and hexadecimal digits.\<close>

definition digitChar :: "nat \<Rightarrow> char" where
  "digitChar n = (''0123456789abcdef'' ! n)"

fun decimal :: "nat \<Rightarrow> string" where
  "decimal n = (if n < 10 then [digitChar n] else decimal (n div 10) @ [digitChar (n mod 10)])"

definition hex2 :: "nat \<Rightarrow> string" where
  "hex2 n = [digitChar (n div 16 mod 16), digitChar (n mod 16)]"

section \<open>The culori library\<close>

text \<open>
  \<open>color-utils.ts\<close> builds every colour through the third-party library culori, of which the
  repository holds the type declarations only (\<open>types/culori.d.ts\<close>).  The colour objects
  follow these declarations; the functions the program imports are the fields of a record
  that every function of the model takes as its first argument, together with the built-in
  \<open>Number.prototype.toFixed\<close>.
\<close>

record Rgb =
  rgb_r :: real
  rgb_g :: real
  rgb_b :: real

record Oklch =
  oklch_l :: real
  oklch_c :: real
  oklch_h :: "real option"

record Hsl =
  hsl_h :: "real option"
  hsl_s :: real
  hsl_l :: real

datatype Color = ColRgb Rgb | ColOklch Oklch | ColHsl Hsl

record culori =
  parse :: "string \<Rightarrow> Rgb option"
  toOklch :: "Color \<Rightarrow> Oklch option"
  toRgb :: "Color \<Rightarrow> Rgb option"
  toHsl :: "Color \<Rightarrow> Hsl option"
  clampChroma :: "Oklch \<Rightarrow> Oklch"
  formatHex :: "Rgb \<Rightarrow> string"
  formatRgb :: "Rgb \<Rightarrow> string"
  toFixed :: "real \<Rightarrow> nat \<Rightarrow> string"

section \<open>color-utils.ts\<close>

datatype ColorSpace = SpaceOklch | SpaceHsl

record RGB =
  rgbR :: int
  rgbG :: int
  rgbB :: int

record LCH =
  lchL :: real
  lchC :: real
  lchH :: real

record HSL =
  hslH :: real
  hslS :: real
  hslL :: real

record ColorResult =
  hex :: string
  rgb :: RGB
  oklch :: LCH
  hsl :: HSL
  cssOklch :: string
  cssRgb :: string
  cssHsl :: string

text \<open>\<open>Math.round\<close>: the nearest integer, a half rounded upwards.\<close>

definition jsround :: "real \<Rightarrow> int" where
  "jsround x = \<lfloor>x + 1 / 2\<rfloor>"

text \<open>\<open>s || d\<close> on strings: the empty string is falsy.\<close>

definition orElse :: "string \<Rightarrow> string \<Rightarrow> string" where
  "orElse s d = (if s = [] then d else s)"

text \<open>\<open>x ?? 0\<close> on an optional hue.\<close>

definition orZero :: "real option \<Rightarrow> real" where
  "orZero x = (case x of None \<Rightarrow> 0 | Some v \<Rightarrow> v)"

definition roundRgb :: "Rgb \<Rightarrow> RGB" where
  "roundRgb q = \<lparr>rgbR = jsround (rgb_r q * 255), rgbG = jsround (rgb_g q * 255),
     rgbB = jsround (rgb_b q * 255)\<rparr>"

definition lchOf :: "Oklch \<Rightarrow> LCH" where
  "lchOf q = \<lparr>lchL = oklch_l q, lchC = oklch_c q, lchH = orZero (oklch_h q)\<rparr>"

definition cssOklchOf :: "culori \<Rightarrow> Oklch \<Rightarrow> string" where
  "cssOklchOf lib q = ''oklch('' @ toFixed lib (oklch_l q * 100) 1 @ ''% ''
     @ toFixed lib (oklch_c q) 3 @ '' '' @ toFixed lib (orZero (oklch_h q)) 1 @ '')''"

definition cssHslOf :: "culori \<Rightarrow> real \<Rightarrow> real \<Rightarrow> real \<Rightarrow> string" where
  "cssHslOf lib hh ss ll = ''hsl('' @ toFixed lib hh 0 @ '', '' @ toFixed lib ss 0 @ ''%, ''
     @ toFixed lib ll 0 @ ''%)''"

text \<open>
  \<open>fromOklch(l, c, h)\<close>: clamp the chroma, convert the clamped colour to RGB and HSL, and
  return null (\<open>None\<close>) when a conversion gives nothing.
\<close>

definition fromOklch :: "culori \<Rightarrow> real \<Rightarrow> real \<Rightarrow> real \<Rightarrow> ColorResult option" where
  "fromOklch lib l c h =
    (let clamped = clampChroma lib \<lparr>oklch_l = l, oklch_c = c, oklch_h = Some h\<rparr>
     in case toRgb lib (ColOklch clamped) of
          None \<Rightarrow> None
        | Some rgbColor \<Rightarrow>
           (case toHsl lib (ColOklch clamped) of
              None \<Rightarrow> None
            | Some hslColor \<Rightarrow>
                Some \<lparr>hex = orElse (formatHex lib rgbColor) ''#000000'',
                  rgb = roundRgb rgbColor,
                  oklch = lchOf clamped,
                  hsl = \<lparr>hslH = orZero (hsl_h hslColor), hslS = hsl_s hslColor * 100,
                          hslL = hsl_l hslColor * 100\<rparr>,
                  cssOklch = cssOklchOf lib clamped,
                  cssRgb = orElse (formatRgb lib rgbColor) ''rgb(0, 0, 0)'',
                  cssHsl = cssHslOf lib (orZero (hsl_h hslColor)) (hsl_s hslColor * 100)
                             (hsl_l hslColor * 100)\<rparr>))"

text \<open>
  \<open>fromHsl(h, s, l)\<close>: the HSL triple is stored as given; the OKLCH and RGB fields come
  from the chroma-clamped conversion.
\<close>

definition fromHsl :: "culori \<Rightarrow> real \<Rightarrow> real \<Rightarrow> real \<Rightarrow> ColorResult option" where
  "fromHsl lib h s l =
    (let color = ColHsl \<lparr>hsl_h = Some h, hsl_s = s / 100, hsl_l = l / 100\<rparr>
     in case toOklch lib color of
          None \<Rightarrow> None
        | Some oklchColor \<Rightarrow>
           (case toRgb lib color of
              None \<Rightarrow> None
            | Some rgbColor \<Rightarrow>
               (let clamped = clampChroma lib oklchColor
                in case toRgb lib (ColOklch clamped) of
                     None \<Rightarrow> None
                   | Some clampedRgb \<Rightarrow>
                       Some \<lparr>hex = orElse (formatHex lib clampedRgb) ''#000000'',
                         rgb = roundRgb clampedRgb,
                         oklch = lchOf clamped,
                         hsl = \<lparr>hslH = h, hslS = s, hslL = l\<rparr>,
                         cssOklch = cssOklchOf lib clamped,
                         cssRgb = orElse (formatRgb lib clampedRgb) ''rgb(0, 0, 0)'',
                         cssHsl = cssHslOf lib h s l\<rparr>)))"

text \<open>
  \<open>parseColor(input)\<close>: null when the string does not parse or a conversion gives nothing.
  (The source also returns null when the library throws; the library functions of the model
  do not throw.)
\<close>

definition parseColor :: "culori \<Rightarrow> string \<Rightarrow> ColorResult option" where
  "parseColor lib input =
    (case parse lib input of
       None \<Rightarrow> None
     | Some parsed \<Rightarrow>
        (case (toOklch lib (ColRgb parsed), toRgb lib (ColRgb parsed), toHsl lib (ColRgb parsed)) of
           (Some oklchColor, Some rgbColor, Some hslColor) \<Rightarrow>
             (let clamped = clampChroma lib oklchColor
              in case (toRgb lib (ColOklch clamped), toHsl lib (ColOklch clamped)) of
                   (Some clampedRgb, Some clampedHsl) \<Rightarrow>
                     Some \<lparr>hex = orElse (formatHex lib clampedRgb) ''#000000'',
                       rgb = roundRgb clampedRgb,
                       oklch = lchOf clamped,
                       hsl = \<lparr>hslH = orZero (hsl_h clampedHsl), hslS = hsl_s clampedHsl * 100,
                               hslL = hsl_l clampedHsl * 100\<rparr>,
                       cssOklch = cssOklchOf lib clamped,
                       cssRgb = orElse (formatRgb lib clampedRgb) ''rgb(0, 0, 0)'',
                       cssHsl = cssHslOf lib (orZero (hsl_h clampedHsl)) (hsl_s clampedHsl * 100)
                                  (hsl_l clampedHsl * 100)\<rparr>
                 | _ \<Rightarrow> None)
         | _ \<Rightarrow> None))"

text \<open>\<open>normalizeHue(h) = ((h % 360) + 360) % 360\<close>\<close>

definition normalizeHue :: "real \<Rightarrow> real" where
  "normalizeHue h = jsmod (jsmod h 360 + 360) 360"

section \<open>generators/interpolation.ts\<close>





section \<open>The harmony generator\<close>




text \<open>\<open>results.filter((c) => c !== null)\<close>\<close>

definition dropNulls :: "'a option list \<Rightarrow> 'a list" where
  "dropNulls xs = List.map_filter (\<lambda>x. x) xs"




section \<open>generators/colorful.ts\<close>

datatype ColorfulMethod =
  HueSweep | GoldenAngle | RandomVibrant | RandomPastel | RandomDark | RandomWarm | RandomCool
  | EarthTones | Neon

text \<open>The field \<open>method\<close> of the source is \<open>genMethod\<close>, and \<open>count\<close> is \<open>paletteCount\<close>.\<close>

record ColorfulConfig =
  genMethod :: ColorfulMethod
  paletteCount :: int
  seed :: "real option"
  fixedLightness :: "real option"
  fixedChroma :: "real option"
  fixedSaturation :: "real option"
  fixedLightnessHsl :: "real option"

text \<open>
  \<open>seededRandom(seed)\<close> returns a closure over the variable \<open>s\<close>, which starts as the seed.
  The state of the closure is passed explicitly: \<open>random s\<close> is one call, giving the number
  returned and the new value of \<open>s\<close>.
\<close>

type_synonym rng = real

definition seededRandom :: "real \<Rightarrow> rng" where
  "seededRandom sd = sd"

definition random :: "rng \<Rightarrow> real \<times> rng" where
  "random s = (let s' = sin (s * 9999) * 10000 in (s' - of_int \<lfloor>s'\<rfloor>, s'))"

text \<open>\<open>fixed ?? (a + random() * b)\<close>: the generator is called only when the fixed value is
  absent.\<close>

definition orRandom :: "real option \<Rightarrow> real \<Rightarrow> real \<Rightarrow> rng \<Rightarrow> real \<times> rng" where
  "orRandom fixed a b s =
    (case fixed of Some v \<Rightarrow> (v, s) | None \<Rightarrow> (let (u, s') = random s in (a + u * b, s')))"

text \<open>\<open>if (color) results.push(color)\<close>\<close>

definition pushed :: "ColorResult option \<Rightarrow> ColorResult list" where
  "pushed color = (case color of None \<Rightarrow> [] | Some col \<Rightarrow> [col])"

text \<open>
  The second half of the loop body that the seven random methods share, for the hue \<open>h\<close>:
  in OKLCH the lightness and then the chroma are taken, in HSL the saturation and then the
  lightness, each fixed or drawn as \<open>a + random() * b\<close> with the constants of the method.
\<close>

definition randomColor ::
  "culori \<Rightarrow> ColorfulConfig \<Rightarrow> ColorSpace \<Rightarrow> real \<Rightarrow> real \<times> real \<Rightarrow> real \<times> real \<Rightarrow> real \<times> real
     \<Rightarrow> real \<times> real \<Rightarrow> rng \<Rightarrow> ColorResult list \<times> rng" where
  "randomColor lib config colorSpace h lr cr sr lhr st =
    (if colorSpace = SpaceOklch then
       (let (l, s1) = orRandom (fixedLightness config) (fst lr) (snd lr) st;
            (c, s2) = orRandom (fixedChroma config) (fst cr) (snd cr) s1
        in (pushed (fromOklch lib l c h), s2))
     else
       (let (s, s1) = orRandom (fixedSaturation config) (fst sr) (snd sr) st;
            (lHsl, s2) = orRandom (fixedLightnessHsl config) (fst lhr) (snd lhr) s1
        in (pushed (fromHsl lib h s lHsl), s2)))"

text \<open>\<open>generateHueSweep\<close>: the loop from index \<open>i\<close> with \<open>n\<close> iterations left; no random
  numbers.\<close>

fun hueSweepFrom ::
  "culori \<Rightarrow> ColorfulConfig \<Rightarrow> ColorSpace \<Rightarrow> real \<Rightarrow> nat \<Rightarrow> nat \<Rightarrow> ColorResult list" where
  "hueSweepFrom lib config colorSpace hueStep i 0 = []"
| "hueSweepFrom lib config colorSpace hueStep i (Suc n) =
    (let h = normalizeHue (real i * hueStep)
     in (if colorSpace = SpaceOklch then
           pushed (fromOklch lib (case fixedLightness config of None \<Rightarrow> 0.65 | Some v \<Rightarrow> v)
             (case fixedChroma config of None \<Rightarrow> 0.18 | Some v \<Rightarrow> v) h)
         else
           pushed (fromHsl lib h (case fixedSaturation config of None \<Rightarrow> 75 | Some v \<Rightarrow> v)
             (case fixedLightnessHsl config of None \<Rightarrow> 55 | Some v \<Rightarrow> v)))
        @ hueSweepFrom lib config colorSpace hueStep (Suc i) n)"

definition generateHueSweep ::
  "culori \<Rightarrow> int \<Rightarrow> ColorfulConfig \<Rightarrow> ColorSpace \<Rightarrow> ColorResult list" where
  "generateHueSweep lib cnt config colorSpace =
    hueSweepFrom lib config colorSpace (360 / real_of_int cnt) 0 (nat cnt)"

text \<open>\<open>generateGoldenAngle\<close>: the start hue is drawn before the loop.\<close>

fun goldenAngleFrom ::
  "culori \<Rightarrow> ColorfulConfig \<Rightarrow> ColorSpace \<Rightarrow> real \<Rightarrow> nat \<Rightarrow> nat \<Rightarrow> rng \<Rightarrow> ColorResult list" where
  "goldenAngleFrom lib config colorSpace startHue i 0 st = []"
| "goldenAngleFrom lib config colorSpace startHue i (Suc n) st =
    (let h = normalizeHue (startHue + real i * 137.507764);
         (cols, s2) = randomColor lib config colorSpace h (0.45, 0.25) (0.12, 0.12) (60, 30)
                        (45, 25) st
     in cols @ goldenAngleFrom lib config colorSpace startHue (Suc i) n s2)"

definition generateGoldenAngle ::
  "culori \<Rightarrow> int \<Rightarrow> rng \<Rightarrow> ColorfulConfig \<Rightarrow> ColorSpace \<Rightarrow> ColorResult list" where
  "generateGoldenAngle lib cnt st config colorSpace =
    (let (u, s1) = random st
     in goldenAngleFrom lib config colorSpace (u * 360) 0 (nat cnt) s1)"

text \<open>The bodies of the random methods, repeated for the number of iterations left.\<close>

fun randomVibrantLoop ::
  "culori \<Rightarrow> nat \<Rightarrow> rng \<Rightarrow> ColorfulConfig \<Rightarrow> ColorSpace \<Rightarrow> ColorResult list" where
  "randomVibrantLoop lib 0 st config colorSpace = []"
| "randomVibrantLoop lib (Suc n) st config colorSpace =
    (let (u, s1) = random st;
         h = u * 360;
         (cols, s2) = randomColor lib config colorSpace h (0.55, 0.2) (0.2, 0.1) (80, 20)
                        (50, 15) s1
     in cols @ randomVibrantLoop lib n s2 config colorSpace)"

fun randomPastelLoop ::
  "culori \<Rightarrow> nat \<Rightarrow> rng \<Rightarrow> ColorfulConfig \<Rightarrow> ColorSpace \<Rightarrow> ColorResult list" where
  "randomPastelLoop lib 0 st config colorSpace = []"
| "randomPastelLoop lib (Suc n) st config colorSpace =
    (let (u, s1) = random st;
         h = u * 360;
         (cols, s2) = randomColor lib config colorSpace h (0.85, 0.1) (0.05, 0.08) (40, 30)
                        (80, 15) s1
     in cols @ randomPastelLoop lib n s2 config colorSpace)"

fun randomDarkLoop ::
  "culori \<Rightarrow> nat \<Rightarrow> rng \<Rightarrow> ColorfulConfig \<Rightarrow> ColorSpace \<Rightarrow> ColorResult list" where
  "randomDarkLoop lib 0 st config colorSpace = []"
| "randomDarkLoop lib (Suc n) st config colorSpace =
    (let (u, s1) = random st;
         h = u * 360;
         (cols, s2) = randomColor lib config colorSpace h (0.2, 0.25) (0.08, 0.12) (50, 40)
                        (15, 25) s1
     in cols @ randomDarkLoop lib n s2 config colorSpace)"

fun randomWarmLoop ::
  "culori \<Rightarrow> nat \<Rightarrow> rng \<Rightarrow> ColorfulConfig \<Rightarrow> ColorSpace \<Rightarrow> ColorResult list" where
  "randomWarmLoop lib 0 st config colorSpace = []"
| "randomWarmLoop lib (Suc n) st config colorSpace =
    (let (u, s1) = random st;
         (v, s2) = random s1;
         h = normalizeHue (if u > 0.3 then v * 80 else 300 + v * 60);
         (cols, s3) = randomColor lib config colorSpace h (0.5, 0.3) (0.12, 0.15) (60, 35)
                        (45, 35) s2
     in cols @ randomWarmLoop lib n s3 config colorSpace)"

fun randomCoolLoop ::
  "culori \<Rightarrow> nat \<Rightarrow> rng \<Rightarrow> ColorfulConfig \<Rightarrow> ColorSpace \<Rightarrow> ColorResult list" where
  "randomCoolLoop lib 0 st config colorSpace = []"
| "randomCoolLoop lib (Suc n) st config colorSpace =
    (let (u, s1) = random st;
         h = 120 + u * 180;
         (cols, s2) = randomColor lib config colorSpace h (0.45, 0.35) (0.1, 0.15) (55, 40)
                        (40, 40) s1
     in cols @ randomCoolLoop lib n s2 config colorSpace)"

fun earthTonesLoop ::
  "culori \<Rightarrow> nat \<Rightarrow> rng \<Rightarrow> ColorfulConfig \<Rightarrow> ColorSpace \<Rightarrow> ColorResult list" where
  "earthTonesLoop lib 0 st config colorSpace = []"
| "earthTonesLoop lib (Suc n) st config colorSpace =
    (let (u, s1) = random st;
         h = 20 + u * 70;
         (cols, s2) = randomColor lib config colorSpace h (0.35, 0.35) (0.04, 0.08) (25, 35)
                        (30, 40) s1
     in cols @ earthTonesLoop lib n s2 config colorSpace)"

fun neonLoop ::
  "culori \<Rightarrow> nat \<Rightarrow> rng \<Rightarrow> ColorfulConfig \<Rightarrow> ColorSpace \<Rightarrow> ColorResult list" where
  "neonLoop lib 0 st config colorSpace = []"
| "neonLoop lib (Suc n) st config colorSpace =
    (let (u, s1) = random st;
         h = u * 360;
         (cols, s2) = randomColor lib config colorSpace h (0.75, 0.15) (0.25, 0.1) (95, 5)
                        (55, 15) s1
     in cols @ neonLoop lib n s2 config colorSpace)"

text \<open>The generators as the source names them; \<open>count\<close> is an integer.\<close>

definition generateRandomVibrant ::
  "culori \<Rightarrow> int \<Rightarrow> rng \<Rightarrow> ColorfulConfig \<Rightarrow> ColorSpace \<Rightarrow> ColorResult list" where
  "generateRandomVibrant lib cnt st config colorSpace =
     randomVibrantLoop lib (nat cnt) st config colorSpace"

definition generateRandomPastel ::
  "culori \<Rightarrow> int \<Rightarrow> rng \<Rightarrow> ColorfulConfig \<Rightarrow> ColorSpace \<Rightarrow> ColorResult list" where
  "generateRandomPastel lib cnt st config colorSpace =
     randomPastelLoop lib (nat cnt) st config colorSpace"

definition generateRandomDark ::
  "culori \<Rightarrow> int \<Rightarrow> rng \<Rightarrow> ColorfulConfig \<Rightarrow> ColorSpace \<Rightarrow> ColorResult list" where
  "generateRandomDark lib cnt st config colorSpace =
     randomDarkLoop lib (nat cnt) st config colorSpace"

definition generateRandomWarm ::
  "culori \<Rightarrow> int \<Rightarrow> rng \<Rightarrow> ColorfulConfig \<Rightarrow> ColorSpace \<Rightarrow> ColorResult list" where
  "generateRandomWarm lib cnt st config colorSpace =
     randomWarmLoop lib (nat cnt) st config colorSpace"

definition generateRandomCool ::
  "culori \<Rightarrow> int \<Rightarrow> rng \<Rightarrow> ColorfulConfig \<Rightarrow> ColorSpace \<Rightarrow> ColorResult list" where
  "generateRandomCool lib cnt st config colorSpace =
     randomCoolLoop lib (nat cnt) st config colorSpace"

definition generateEarthTones ::
  "culori \<Rightarrow> int \<Rightarrow> rng \<Rightarrow> ColorfulConfig \<Rightarrow> ColorSpace \<Rightarrow> ColorResult list" where
  "generateEarthTones lib cnt st config colorSpace =
     earthTonesLoop lib (nat cnt) st config colorSpace"

definition generateNeon ::
  "culori \<Rightarrow> int \<Rightarrow> rng \<Rightarrow> ColorfulConfig \<Rightarrow> ColorSpace \<Rightarrow> ColorResult list" where
  "generateNeon lib cnt st config colorSpace = neonLoop lib (nat cnt) st config colorSpace"

text \<open>
  \<open>generateColorful(config, colorSpace)\<close>.  The seed defaults to \<open>Date.now()\<close>; the reading
  of the clock at the call is the argument \<open>now\<close>.
\<close>

definition generateColorful ::
  "culori \<Rightarrow> real \<Rightarrow> ColorfulConfig \<Rightarrow> ColorSpace \<Rightarrow> ColorResult list" where
  "generateColorful lib now config colorSpace =
    (let cnt = paletteCount config;
         sd = (case seed config of None \<Rightarrow> now | Some v \<Rightarrow> v);
         rnd = seededRandom sd
     in case genMethod config of
          HueSweep \<Rightarrow> generateHueSweep lib cnt config colorSpace
        | GoldenAngle \<Rightarrow> generateGoldenAngle lib cnt rnd config colorSpace
        | RandomVibrant \<Rightarrow> generateRandomVibrant lib cnt rnd config colorSpace
        | RandomPastel \<Rightarrow> generateRandomPastel lib cnt rnd config colorSpace
        | RandomDark \<Rightarrow> generateRandomDark lib cnt rnd config colorSpace
        | RandomWarm \<Rightarrow> generateRandomWarm lib cnt rnd config colorSpace
        | RandomCool \<Rightarrow> generateRandomCool lib cnt rnd config colorSpace
        | EarthTones \<Rightarrow> generateEarthTones lib cnt rnd config colorSpace
        | Neon \<Rightarrow> generateNeon lib cnt rnd config colorSpace)"

text \<open>
  The repository holds a second version of the module (\<open>src/unnamed/part_006\<close>), whose cool
  method is \<open>generateCoolSpectrum\<close>: the hues are spread evenly from \<open>startHue = 120\<close> to
  \<open>endHue = 280\<close>, with \<open>hueStep = (endHue - startHue) / (count - 1 || 1)\<close>, and no random
  number is drawn.
\<close>

fun coolSpectrumFrom ::
  "culori \<Rightarrow> ColorfulConfig \<Rightarrow> ColorSpace \<Rightarrow> real \<Rightarrow> nat \<Rightarrow> nat \<Rightarrow> ColorResult list" where
  "coolSpectrumFrom lib config colorSpace hueStep i 0 = []"
| "coolSpectrumFrom lib config colorSpace hueStep i (Suc n) =
    (let h = normalizeHue (120 + real i * hueStep)
     in (if colorSpace = SpaceOklch then
           pushed (fromOklch lib (case fixedLightness config of None \<Rightarrow> 0.60 | Some v \<Rightarrow> v)
             (case fixedChroma config of None \<Rightarrow> 0.15 | Some v \<Rightarrow> v) h)
         else
           pushed (fromHsl lib h (case fixedSaturation config of None \<Rightarrow> 65 | Some v \<Rightarrow> v)
             (case fixedLightnessHsl config of None \<Rightarrow> 50 | Some v \<Rightarrow> v)))
        @ coolSpectrumFrom lib config colorSpace hueStep (Suc i) n)"

definition generateCoolSpectrum ::
  "culori \<Rightarrow> int \<Rightarrow> ColorfulConfig \<Rightarrow> ColorSpace \<Rightarrow> ColorResult list" where
  "generateCoolSpectrum lib cnt config colorSpace =
    coolSpectrumFrom lib config colorSpace
      ((280 - 120) / (if cnt - 1 = 0 then 1 else real_of_int (cnt - 1))) 0 (nat cnt)"

section \<open>contrast.ts\<close>

text \<open>\<open>sRGBtoY(rgb)\<close>: \<open>Math.pow(x, 2.4)\<close> on the channels, which are not negative.\<close>

definition sRGBtoY :: "RGB \<Rightarrow> real" where
  "sRGBtoY q =
    0.2126729 * (real_of_int (rgbR q) / 255) powr 2.4
    + 0.7151522 * (real_of_int (rgbG q) / 255) powr 2.4
    + 0.0721750 * (real_of_int (rgbB q) / 255) powr 2.4"

text \<open>\<open>APCAcontrast(txtY, bgY)\<close>, with the constants of the source written in.\<close>

definition APCAcontrast :: "real \<Rightarrow> real \<Rightarrow> real" where
  "APCAcontrast txtY0 bgY0 =
    (let txtY = max 0 txtY0;
         bgY = max 0 bgY0
     in if bgY > txtY then
          (let SAPC = (bgY powr 0.56 - txtY powr 0.57) * 1.14
           in if SAPC < 0.1 then 0 else SAPC - 0.027)
        else
          (let SAPC = (bgY powr 0.65 - txtY powr 0.62) * 1.14
           in if SAPC > - 0.1 then 0 else SAPC + 0.027))"

definition getAPCAContrast :: "ColorResult \<Rightarrow> ColorResult \<Rightarrow> real" where
  "getAPCAContrast textColor bgColor =
    APCAcontrast (sRGBtoY (rgb textColor)) (sRGBtoY (rgb bgColor)) * 100"

text \<open>
  \<open>getContrastTextColor(bgColor)\<close>: the argument is a \<open>ColorResult\<close> or a string, which is
  parsed.  The two text colours are parsed with a non-null assertion, so that reading
  \<open>.rgb\<close> of a null result throws a \<open>TypeError\<close>.
\<close>

datatype ColorOrString = AsColor ColorResult | AsString string

datatype error = TypeError

definition getContrastTextColor :: "culori \<Rightarrow> ColorOrString \<Rightarrow> error + string" where
  "getContrastTextColor lib bgColor =
    (case (case bgColor of AsString s \<Rightarrow> parseColor lib s | AsColor col \<Rightarrow> Some col) of
       None \<Rightarrow> Inr ''#000000''
     | Some bg \<Rightarrow>
        (case parseColor lib ''#FFFFFF'' of
           None \<Rightarrow> Inl TypeError
         | Some white \<Rightarrow>
            (case parseColor lib ''#000000'' of
               None \<Rightarrow> Inl TypeError
             | Some black \<Rightarrow>
                (let whiteContrast = \<bar>getAPCAContrast white bg\<bar>;
                     blackContrast = \<bar>getAPCAContrast black bg\<bar>
                 in if whiteContrast > blackContrast then Inr ''#FFFFFF''
                    else Inr ''#000000''))))"

section \<open>image-colors.ts\<close>

text \<open>
  The module works on the interface \<open>RGB\<close> (the record \<open>RGB\<close> above: the channels of a pixel
  are bytes, those of a centroid are rounded means) and on clusters.  The field \<open>count\<close> of
  a cluster is \<open>members\<close> here.
\<close>

record Cluster =
  center :: RGB
  members :: nat

text \<open>\<open>colorDistance(a, b)\<close>\<close>

definition colorDistance :: "RGB \<Rightarrow> RGB \<Rightarrow> real" where
  "colorDistance a b =
    sqrt (real_of_int ((rgbR a - rgbR b) ^ 2) + real_of_int ((rgbG a - rgbG b) ^ 2)
          + real_of_int ((rgbB a - rgbB b) ^ 2))"

text \<open>\<open>rgbToHex(rgb)\<close>: each channel clamped to the bytes and written with two hexadecimal
  digits.\<close>

definition toHex :: "int \<Rightarrow> string" where
  "toHex n = hex2 (nat (max 0 (min 255 n)))"

definition rgbToHex :: "RGB \<Rightarrow> string" where
  "rgbToHex q = ''#'' @ toHex (rgbR q) @ toHex (rgbG q) @ toHex (rgbB q)"

text \<open>
  \<open>getPixelsFromImageData\<close>: \<open>data\<close> is the byte array of the image, four bytes to a pixel.
  The loop visits the offsets \<open>0, 4 * sampleRate, 8 * sampleRate, ...\<close> below the length, and
  keeps a pixel unless it is transparent, very light or very dark.
\<close>

definition keepPixel :: "int list \<Rightarrow> nat \<Rightarrow> RGB list" where
  "keepPixel dat i =
    (let r = dat ! i; g = dat ! (i + 1); b = dat ! (i + 2); a = dat ! (i + 3);
         brightness = real_of_int (r + g + b) / 3
     in if a < 128 then []
        else if brightness > 250 \<or> brightness < 5 then []
        else [\<lparr>rgbR = r, rgbG = g, rgbB = b\<rparr>])"

definition getPixelsFromImageData :: "int list \<Rightarrow> RGB list" where
  "getPixelsFromImageData dat =
    (let sampleRate = max 1 (length dat div 4 div 10000)
     in concat (map (\<lambda>j. keepPixel dat (j * (4 * sampleRate)))
          [0 ..< (length dat + 4 * sampleRate - 1) div (4 * sampleRate)]))"

text \<open>
  The search for the nearest centroid, which \<open>kMeansClustering\<close> writes out twice:
  \<open>minDist\<close> starts as \<open>Infinity\<close> (\<open>None\<close>) and \<open>minIdx\<close> as 0, and a centroid replaces
  the current one when it is strictly nearer.
\<close>

fun nearestFrom :: "RGB list \<Rightarrow> RGB \<Rightarrow> nat \<Rightarrow> real option \<Rightarrow> nat \<Rightarrow> nat" where
  "nearestFrom [] pixel i minDist minIdx = minIdx"
| "nearestFrom (c # cs) pixel i minDist minIdx =
    (let dist = colorDistance pixel c
     in if (case minDist of None \<Rightarrow> True | Some m \<Rightarrow> dist < m)
        then nearestFrom cs pixel (Suc i) (Some dist) i
        else nearestFrom cs pixel (Suc i) minDist minIdx)"

definition nearestIndex :: "RGB list \<Rightarrow> RGB \<Rightarrow> nat" where
  "nearestIndex centroids pixel = nearestFrom centroids pixel 0 None 0"

text \<open>
  The seeding.  \<open>Math.random()\<close> is a sequence \<open>src\<close> of numbers, of which the call number
  \<open>j\<close> returns \<open>src j\<close>.  \<open>seedWeights\<close> is the array \<open>distances\<close>: for every pixel the
  square of \<open>Math.min(...)\<close> over its distances to the centroids, of which there is at
  least one (without a centroid the minimum is \<open>Infinity\<close>, \<open>None\<close> here).  \<open>pickIndex\<close> is
  the \<open>for\<close> loop that subtracts the weights from \<open>random\<close> and stops at the first index
  where it is not positive, or ends without a choice.
\<close>

fun pickIndex :: "real \<Rightarrow> real list \<Rightarrow> nat option" where
  "pickIndex rnd [] = None"
| "pickIndex rnd (d # ds) =
    (if rnd - d \<le> 0 then Some 0 else map_option Suc (pickIndex (rnd - d) ds))"

definition seedWeights :: "RGB list \<Rightarrow> RGB list \<Rightarrow> real list option" where
  "seedWeights pixels centroids =
    (if centroids = [] then None
     else Some (map (\<lambda>pixel. (fold min (map (colorDistance pixel) (tl centroids))
                                (colorDistance pixel (hd centroids))) ^ 2) pixels))"

text \<open>
  The \<open>while\<close> loop of the seeding.  It does not return when no index is ever chosen, so it
  is a partial function, with \<open>None\<close> for a run that does not return.
\<close>

partial_function (option) seedCentroids ::
  "(nat \<Rightarrow> real) \<Rightarrow> nat \<Rightarrow> RGB list \<Rightarrow> nat \<Rightarrow> RGB list \<Rightarrow> RGB list option" where
  "seedCentroids src j pixels k centroids =
    (if length centroids < k then
       (case seedWeights pixels centroids of
          None \<Rightarrow> None
        | Some distances \<Rightarrow>
           (let totalDist = sum_list distances;
                rnd = src j * totalDist
            in case pickIndex rnd distances of
                 Some i \<Rightarrow> seedCentroids src (Suc j) pixels k (centroids @ [pixels ! i])
               | None \<Rightarrow> seedCentroids src (Suc j) pixels k centroids))
     else Some centroids)"

text \<open>
  One iteration of the main loop: every pixel is appended to the cluster of its nearest
  centroid (a \<open>TypeError\<close>, \<open>None\<close>, when there is no such cluster), and the centroid of
  every cluster that is not empty becomes the rounded mean of its members.
\<close>

definition assignPixels :: "nat \<Rightarrow> RGB list \<Rightarrow> RGB list \<Rightarrow> RGB list list option" where
  "assignPixels k centroids pixels =
    fold (\<lambda>pixel acc.
            case acc of
              None \<Rightarrow> None
            | Some clusters \<Rightarrow>
               (let minIdx = nearestIndex centroids pixel
                in if minIdx < length clusters
                   then Some (clusters[minIdx := clusters ! minIdx @ [pixel]])
                   else None))
         pixels (Some (replicate k []))"

definition meanOf :: "(RGB \<Rightarrow> int) \<Rightarrow> RGB list \<Rightarrow> int" where
  "meanOf f ms = jsround (real_of_int (sum_list (map f ms)) / real (length ms))"

definition updateCentroids :: "nat \<Rightarrow> RGB list \<Rightarrow> RGB list list \<Rightarrow> RGB list" where
  "updateCentroids k centroids clusters =
    fold (\<lambda>i cs. if length (clusters ! i) > 0
                   then cs[i := \<lparr>rgbR = meanOf rgbR (clusters ! i), rgbG = meanOf rgbG (clusters ! i),
                                  rgbB = meanOf rgbB (clusters ! i)\<rparr>]
                   else cs)
         [0 ..< k] centroids"

fun lloyd :: "nat \<Rightarrow> nat \<Rightarrow> RGB list \<Rightarrow> RGB list \<Rightarrow> RGB list option" where
  "lloyd 0 k pixels centroids = Some centroids"
| "lloyd (Suc n) k pixels centroids =
    (case assignPixels k centroids pixels of
       None \<Rightarrow> None
     | Some clusters \<Rightarrow> lloyd n k pixels (updateCentroids k centroids clusters))"

text \<open>The final assignment, which counts the members of every centroid.\<close>

definition countMembers :: "RGB list \<Rightarrow> RGB list \<Rightarrow> Cluster list" where
  "countMembers centroids pixels =
    fold (\<lambda>pixel cls.
            (let minIdx = nearestIndex centroids pixel
             in cls[minIdx := (cls ! minIdx)\<lparr>members := members (cls ! minIdx) + 1\<rparr>]))
         pixels (map (\<lambda>c. \<lparr>center = c, members = 0\<rparr>) centroids)"

text \<open>
  \<open>kMeansClustering(pixels, k, iterations)\<close> with an integer \<open>k\<close>.  The first centroid is
  \<open>pixels[Math.floor(Math.random() * pixels.length)]\<close>, which is undefined outside the array
  and then makes \<open>colorDistance\<close> throw.  \<open>None\<close> is a run that throws or does not return.
\<close>

definition kMeansClustering ::
  "(nat \<Rightarrow> real) \<Rightarrow> RGB list \<Rightarrow> int \<Rightarrow> nat \<Rightarrow> Cluster list option" where
  "kMeansClustering src pixels k iterations =
    (if length pixels = 0 then Some []
     else if int (length pixels) \<le> k then Some (map (\<lambda>p. \<lparr>center = p, members = 1\<rparr>) pixels)
     else
       (let first = \<lfloor>src 0 * real (length pixels)\<rfloor>
        in if first < 0 \<or> int (length pixels) \<le> first then None
           else
             (case seedCentroids src 1 pixels (nat k) [pixels ! nat first] of
                None \<Rightarrow> None
              | Some seeded \<Rightarrow>
                 (case lloyd iterations (nat k) pixels seeded of
                    None \<Rightarrow> None
                  | Some centroids \<Rightarrow>
                      Some (filter (\<lambda>c. members c > 0) (countMembers centroids pixels))))))"

text \<open>
  \<open>extractColorsFromImage\<close> from the image data on: the clusters are sorted by \<open>b.count -
  a.count\<close> (the sort of an array is stable), and every centre that parses is pushed.
\<close>

definition sortClusters :: "Cluster list \<Rightarrow> Cluster list" where
  "sortClusters clusters = sort_key (\<lambda>c. - int (members c)) clusters"

definition clusterColors :: "culori \<Rightarrow> Cluster list \<Rightarrow> ColorResult list" where
  "clusterColors lib clusters =
    List.map_filter (\<lambda>cluster. parseColor lib (rgbToHex (center cluster))) clusters"

definition dominantClusters ::
  "(nat \<Rightarrow> real) \<Rightarrow> int list \<Rightarrow> int \<Rightarrow> Cluster list option" where
  "dominantClusters src dat colorCount =
    map_option sortClusters (kMeansClustering src (getPixelsFromImageData dat) colorCount 10)"

definition extractColorsFromImage ::
  "culori \<Rightarrow> (nat \<Rightarrow> real) \<Rightarrow> int list \<Rightarrow> int \<Rightarrow> ColorResult list option" where
  "extractColorsFromImage lib src dat colorCount =
    map_option (clusterColors lib) (dominantClusters src dat colorCount)"

section \<open>A model of the library\<close>

text \<open>
  Modelled from the spec: the culori functions that \<open>color-utils.ts\<close> imports, whose code is
  not in the repository.  The spec describes them as the conversions among hex, RGB, OKLCH
  and HSL and as the gamut clamp that reduces C, preserving L and H, until the induced sRGB
  triple lies in the unit cube.  The conversions are the published sRGB, HSL and OKLab
  formulas on exact reals.  The theorems below hold for every library; this model is the
  library at which the examples are evaluated.
\<close>

text \<open>The sRGB transfer function and its inverse, odd in their argument.\<close>

definition srgbEncode :: "real \<Rightarrow> real" where
  "srgbEncode x =
    (if \<bar>x\<bar> > 0.0031308 then sgn x * (1.055 * \<bar>x\<bar> powr (1 / 2.4) - 0.055) else 12.92 * x)"

definition srgbDecode :: "real \<Rightarrow> real" where
  "srgbDecode x =
    (if \<bar>x\<bar> \<le> 0.04045 then x / 12.92 else sgn x * ((\<bar>x\<bar> + 0.055) / 1.055) powr 2.4)"

text \<open>OKLCH to linear-light sRGB through OKLab; a missing hue counts as no chroma.\<close>

definition oklchToLinear :: "Oklch \<Rightarrow> real \<times> real \<times> real" where
  "oklchToLinear q =
    (let a = (case oklch_h q of None \<Rightarrow> 0 | Some h \<Rightarrow> oklch_c q * cos (h / 180 * pi));
         b = (case oklch_h q of None \<Rightarrow> 0 | Some h \<Rightarrow> oklch_c q * sin (h / 180 * pi));
         l' = (oklch_l q + 0.3963377774 * a + 0.2158037573 * b) ^ 3;
         m' = (oklch_l q - 0.1055613458 * a - 0.0638541728 * b) ^ 3;
         s' = (oklch_l q - 0.0894841775 * a - 1.2914855480 * b) ^ 3
     in (4.0767416621 * l' - 3.3077115913 * m' + 0.2309699292 * s',
         - 1.2684380046 * l' + 2.6097574011 * m' - 0.3413193965 * s',
         - 0.0041960863 * l' - 0.7034186147 * m' + 1.7076147010 * s'))"

definition oklchToRgb :: "Oklch \<Rightarrow> Rgb" where
  "oklchToRgb q = (case oklchToLinear q of (x, y, z) \<Rightarrow>
     \<lparr>rgb_r = srgbEncode x, rgb_g = srgbEncode y, rgb_b = srgbEncode z\<rparr>)"

text \<open>sRGB to OKLCH; the hue is the angle of \<open>(a, b)\<close> in degrees and is missing when the
  chroma is 0.\<close>

definition rgbToOklch :: "Rgb \<Rightarrow> Oklch" where
  "rgbToOklch q =
    (let x = srgbDecode (rgb_r q); y = srgbDecode (rgb_g q); z = srgbDecode (rgb_b q);
         l' = root 3 (0.4122214708 * x + 0.5363325363 * y + 0.0514459929 * z);
         m' = root 3 (0.2119034982 * x + 0.6806995451 * y + 0.1073969566 * z);
         s' = root 3 (0.0883024619 * x + 0.2817188376 * y + 0.6299787005 * z);
         a = 1.9779984951 * l' - 2.4285922050 * m' + 0.4505937099 * s';
         b = 0.0259040371 * l' + 0.7827717662 * m' - 0.8086757660 * s';
         c = sqrt (a * a + b * b)
     in \<lparr>oklch_l = 0.2104542553 * l' + 0.7936177850 * m' - 0.0040720468 * s',
         oklch_c = c,
         oklch_h = (if c = 0 then None else Some (normalizeHue (Arg (Complex a b) * 180 / pi)))\<rparr>)"

definition hslToRgb :: "Hsl \<Rightarrow> Rgb" where
  "hslToRgb q =
    (let h = normalizeHue (orZero (hsl_h q)); s = hsl_s q; l = hsl_l q;
         m1 = l + s * (if l < 0.5 then l else 1 - l);
         m2 = m1 - (m1 - l) * 2 * \<bar>jsmod (h / 60) 2 - 1\<bar>;
         m3 = 2 * l - m1;
         k = \<lfloor>h / 60\<rfloor>
     in if k = 0 then \<lparr>rgb_r = m1, rgb_g = m2, rgb_b = m3\<rparr>
        else if k = 1 then \<lparr>rgb_r = m2, rgb_g = m1, rgb_b = m3\<rparr>
        else if k = 2 then \<lparr>rgb_r = m3, rgb_g = m1, rgb_b = m2\<rparr>
        else if k = 3 then \<lparr>rgb_r = m3, rgb_g = m2, rgb_b = m1\<rparr>
        else if k = 4 then \<lparr>rgb_r = m2, rgb_g = m3, rgb_b = m1\<rparr>
        else if k = 5 then \<lparr>rgb_r = m1, rgb_g = m3, rgb_b = m2\<rparr>
        else \<lparr>rgb_r = m3, rgb_g = m3, rgb_b = m3\<rparr>)"

definition rgbToHsl :: "Rgb \<Rightarrow> Hsl" where
  "rgbToHsl q =
    (let x = rgb_r q; y = rgb_g q; z = rgb_b q;
         M = max x (max y z); m = min x (min y z); d = M - m
     in \<lparr>hsl_h = (if d = 0 then None
                   else Some (60 * (if M = x then (y - z) / d + (if y < z then 6 else 0)
                                    else if M = y then (z - x) / d + 2
                                    else (x - y) / d + 4))),
         hsl_s = (if d = 0 then 0 else d / (1 - \<bar>M + m - 1\<bar>)),
         hsl_l = (M + m) / 2\<rparr>)"

definition modelToRgb :: "Color \<Rightarrow> Rgb" where
  "modelToRgb col = (case col of ColRgb q \<Rightarrow> q | ColOklch q \<Rightarrow> oklchToRgb q
     | ColHsl q \<Rightarrow> hslToRgb q)"

definition modelToOklch :: "Color \<Rightarrow> Oklch" where
  "modelToOklch col = (case col of ColOklch q \<Rightarrow> q | ColRgb q \<Rightarrow> rgbToOklch q
     | ColHsl q \<Rightarrow> rgbToOklch (hslToRgb q))"

definition modelToHsl :: "Color \<Rightarrow> Hsl" where
  "modelToHsl col = (case col of ColHsl q \<Rightarrow> q | ColRgb q \<Rightarrow> rgbToHsl q
     | ColOklch q \<Rightarrow> rgbToHsl (oklchToRgb q))"

text \<open>A colour is displayable when its sRGB triple lies in the unit cube.\<close>

definition displayable :: "Oklch \<Rightarrow> bool" where
  "displayable q =
    (let p = oklchToRgb q
     in 0 \<le> rgb_r p \<and> rgb_r p \<le> 1 \<and> 0 \<le> rgb_g p \<and> rgb_g p \<le> 1 \<and> 0 \<le> rgb_b p \<and> rgb_b p \<le> 1)"

text \<open>
  The search for the largest displayable chroma by bisection of the interval from \<open>lo\<close> to
  \<open>hi\<close>, until it is no wider than 0.4 / 2^13; \<open>good\<close> is the last chroma found
  displayable.  The width is halved in every call; the termination proof follows the
  definitions.
\<close>

function chromaSearch :: "Oklch \<Rightarrow> real \<Rightarrow> real \<Rightarrow> real \<Rightarrow> real" where
  "chromaSearch q lo hi good =
    (if hi - lo > 0.4 / 8192 then
       (let mid = lo + (hi - lo) * 0.5
        in if displayable (q\<lparr>oklch_c := mid\<rparr>) then chromaSearch q mid hi mid
           else chromaSearch q lo mid good)
     else good)"
  by pat_completeness auto

text \<open>
  The gamut clamp: a displayable colour is returned as it is; a colour that is not
  displayable even without chroma has its sRGB triple clipped to the unit cube; otherwise
  the chroma is reduced by the search, lightness and hue kept.
\<close>

definition clip01 :: "real \<Rightarrow> real" where
  "clip01 x = max 0 (min 1 x)"

definition modelClampChroma :: "Oklch \<Rightarrow> Oklch" where
  "modelClampChroma q =
    (if displayable q then q
     else if \<not> displayable (q\<lparr>oklch_c := 0\<rparr>) then
       (let p = oklchToRgb (q\<lparr>oklch_c := 0\<rparr>)
        in rgbToOklch \<lparr>rgb_r = clip01 (rgb_r p), rgb_g = clip01 (rgb_g p), rgb_b = clip01 (rgb_b p)\<rparr>)
     else q\<lparr>oklch_c := chromaSearch q 0 (oklch_c q) 0\<rparr>)"

definition channel255 :: "real \<Rightarrow> nat" where
  "channel255 x = nat (jsround (clip01 x * 255))"

definition modelFormatHex :: "Rgb \<Rightarrow> string" where
  "modelFormatHex q = ''#'' @ hex2 (channel255 (rgb_r q)) @ hex2 (channel255 (rgb_g q))
     @ hex2 (channel255 (rgb_b q))"

definition modelFormatRgb :: "Rgb \<Rightarrow> string" where
  "modelFormatRgb q = ''rgb('' @ decimal (channel255 (rgb_r q)) @ '', ''
     @ decimal (channel255 (rgb_g q)) @ '', '' @ decimal (channel255 (rgb_b q)) @ '')''"

text \<open>\<open>x.toFixed(d)\<close>: \<open>d\<close> digits after the point, the last one rounded, a half away from
  zero.\<close>

definition modelToFixed :: "real \<Rightarrow> nat \<Rightarrow> string" where
  "modelToFixed x d =
    (let n = nat \<lfloor>\<bar>x\<bar> * 10 ^ d + 1 / 2\<rfloor>;
         frac = decimal (n mod 10 ^ d)
     in (if x < 0 then ''-'' else '''') @ decimal (n div 10 ^ d)
        @ (if d = 0 then '''' else ''.'' @ replicate (d - length frac) (CHR ''0'') @ frac))"

text \<open>Parsing: the literals \<open>#rrggbb\<close>, in either case of the digits.  The other
  syntaxes of CSS colours are not part of this model, which gives \<open>None\<close> for them.\<close>

definition hexVal :: "char \<Rightarrow> nat option" where
  "hexVal ch = map_of (zip ''0123456789abcdefABCDEF''
     [0, 1, 2, 3, 4, 5, 6, 7, 8, 9, 10, 11, 12, 13, 14, 15, 10, 11, 12, 13, 14, 15]) ch"

definition hexByte :: "char \<Rightarrow> char \<Rightarrow> real option" where
  "hexByte hi lo = (case (hexVal hi, hexVal lo) of
     (Some a, Some b) \<Rightarrow> Some (real (16 * a + b) / 255) | _ \<Rightarrow> None)"

definition modelParse :: "string \<Rightarrow> Rgb option" where
  "modelParse s = (case s of
     [h, r1, r2, g1, g2, b1, b2] \<Rightarrow>
       (if h = CHR ''#'' then
          (case (hexByte r1 r2, hexByte g1 g2, hexByte b1 b2) of
             (Some x, Some y, Some z) \<Rightarrow> Some \<lparr>rgb_r = x, rgb_g = y, rgb_b = z\<rparr>
           | _ \<Rightarrow> None)
        else None)
   | _ \<Rightarrow> None)"

definition culoriModel :: culori where
  "culoriModel = \<lparr>parse = modelParse,
     toOklch = (\<lambda>col. Some (modelToOklch col)),
     toRgb = (\<lambda>col. Some (modelToRgb col)),
     toHsl = (\<lambda>col. Some (modelToHsl col)),
     clampChroma = modelClampChroma,
     formatHex = modelFormatHex,
     formatRgb = modelFormatRgb,
     toFixed = modelToFixed\<rparr>"

section \<open>Assumptions on the library and the inputs of the examples\<close>








text \<open>A colour generated with the hue \<open>h\<close>: the constructor of the colour space returned it
  for this hue and some other two coordinates.\<close>

definition generatedWithHue :: "culori \<Rightarrow> ColorSpace \<Rightarrow> real \<Rightarrow> ColorResult \<Rightarrow> bool" where
  "generatedWithHue lib colorSpace h col \<longleftrightarrow>
    (if colorSpace = SpaceOklch then \<exists>l c. fromOklch lib l c h = Some col
     else \<exists>s l. fromHsl lib h s l = Some col \<and> hslH (hsl col) = h)"

text \<open>Two configurations of the examples: three cool colours from the seed 42, and one cool
  colour from a seed at which the first random number is 0.9.\<close>

definition coolSeed42 :: ColorfulConfig where
  "coolSeed42 = \<lparr>genMethod = RandomCool, paletteCount = 3, seed = Some 42, fixedLightness = None,
     fixedChroma = None, fixedSaturation = None, fixedLightnessHsl = None\<rparr>"


text \<open>The inputs of the examples for the extraction: four opaque pixels as image data, and a
  random source that always returns one half.\<close>

definition fourPixels :: "int list" where
  "fourPixels = [200, 30, 30, 255, 30, 200, 30, 255, 30, 30, 200, 255, 210, 40, 40, 255]"

definition halves :: "nat \<Rightarrow> real" where
  "halves i = 1 / 2"

section \<open>Properties of the remainder\<close>

lemma trunc_of_int [simp]: "trunc (of_int k) = k"
  by (simp add: trunc_def)



lemma jsmod_nonneg_int_shift:
  assumes "0 \<le> a" and "0 < b" and "0 \<le> a + b * of_int k"
  shows "jsmod (a + b * of_int k) b = jsmod a b"
proof -
  have q: "0 \<le> a / b" using assms by simp
  have q': "0 \<le> (a + b * of_int k) / b" using assms by simp
  have e: "(a + b * of_int k) / b = a / b + of_int k"
    using assms(2) by (simp add: field_simps)
  have "trunc ((a + b * of_int k) / b) = \<lfloor>a / b\<rfloor> + k"
    using q' by (simp add: trunc_def e)
  moreover have "trunc (a / b) = \<lfloor>a / b\<rfloor>" using q by (simp add: trunc_def)
  ultimately show ?thesis by (simp add: jsmod_def algebra_simps)
qed






section \<open>The chroma search terminates\<close>

lemma ceiling_halve_less:
  fixes x :: real
  assumes "1 < x"
  shows "\<lceil>x / 2\<rceil> < \<lceil>x\<rceil>"
proof -
  have "2 \<le> \<lceil>x\<rceil>" using assms by linarith
  then have "x / 2 \<le> real_of_int (\<lceil>x\<rceil> - 1)"
    using le_of_int_ceiling [of x] by linarith
  then have "\<lceil>x / 2\<rceil> \<le> \<lceil>x\<rceil> - 1" by (simp only: ceiling_le_iff)
  then show ?thesis by simp
qed

lemma search_width_decreases:
  fixes lo hi w :: real
  assumes "hi - lo > 0.4 / 8192" and "w = (hi - lo) / 2"
  shows "nat \<lceil>w * 20480\<rceil> < nat \<lceil>(hi - lo) * 20480\<rceil>"
proof -
  have one: "1 < (hi - lo) * 20480" using assms(1) by simp
  have "\<lceil>(hi - lo) * 20480 / 2\<rceil> < \<lceil>(hi - lo) * 20480\<rceil>"
    by (rule ceiling_halve_less [OF one])
  moreover have "w * 20480 = (hi - lo) * 20480 / 2" using assms(2) by simp
  moreover have "0 < \<lceil>(hi - lo) * 20480\<rceil>" using one by linarith
  ultimately show ?thesis by (simp only: zless_nat_conj)
qed

termination chromaSearch
proof (relation "measure (\<lambda>(q, lo, hi, good). nat \<lceil>(hi - lo) * 20480\<rceil>)", goal_cases)
  case 1
  show ?case by simp
next
  case (2 q lo hi good mid)
  have "hi - mid = (hi - lo) / 2" using 2(2) by argo
  from search_width_decreases [OF 2(1) this] show ?case by simp
next
  case (3 q lo hi good mid)
  have "mid - lo = (hi - lo) / 2" using 3(2) by argo
  from search_width_decreases [OF 3(1) this] show ?case by simp
qed

section \<open>The gamut of the library model\<close>

lemma powr_bound:
  fixes y :: real assumes "0.0031308 < y"
  shows "0.0522 < y powr (1 / 2.4)"
proof (cases "y \<le> 1")
  case True
  have "(0.0522::real)\<^sup>2 < y" using assms by (simp add: power2_eq_square)
  then have "0.0522 < sqrt y" by (rule real_less_rsqrt)
  also have "sqrt y = y powr (1/2)" using assms by (simp add: powr_half_sqrt)
  also have "\<dots> \<le> y powr (1 / 2.4)"
    by (rule powr_mono') (use assms True in simp_all)
  finally show ?thesis .
next
  case False
  then have "1 < y powr (1 / 2.4)" by (intro gr_one_powr) simp_all
  then show ?thesis by simp
qed

lemma srgbEncode_gt_one: "1 < x \<Longrightarrow> 1 < srgbEncode x"
proof -
  assume x: "1 < x"
  then have "1 < x powr (5 / 12)" by (intro gr_one_powr) simp_all
  then have "1 < 211 * x powr (5 / 12) / 200 - 11 / 200" by linarith
  then show ?thesis using x by (simp add: srgbEncode_def)
qed

lemma srgbEncode_neg: "x < 0 \<Longrightarrow> srgbEncode x < 0"
proof -
  assume x: "x < 0"
  show ?thesis
  proof (cases "\<bar>x\<bar> > 0.0031308")
    case True
    from powr_bound [OF True] have "0.0522 < \<bar>x\<bar> powr (1 / 2.4)" .
    then show ?thesis using x True by (simp add: srgbEncode_def)
  next
    case False
    then show ?thesis using x by (simp add: srgbEncode_def)
  qed
qed

lemma srgbEncode_unit: "0 \<le> x \<Longrightarrow> x \<le> 1 \<Longrightarrow> 0 \<le> srgbEncode x \<and> srgbEncode x \<le> 1"
proof -
  assume x: "0 \<le> x" "x \<le> 1"
  show ?thesis
  proof (cases "\<bar>x\<bar> > 0.0031308")
    case True
    from powr_bound [OF True] have lo: "0.0522 < \<bar>x\<bar> powr (1 / 2.4)" .
    have hi: "\<bar>x\<bar> powr (1 / 2.4) \<le> 1" using x by (intro powr_le1) simp_all
    show ?thesis using x True lo hi by (simp add: srgbEncode_def)
  next
    case False
    then show ?thesis using x by (simp add: srgbEncode_def)
  qed
qed

lemma srgbEncode_unit_iff: "(0 \<le> srgbEncode x \<and> srgbEncode x \<le> 1) \<longleftrightarrow> (0 \<le> x \<and> x \<le> 1)"
  using srgbEncode_unit [of x] srgbEncode_neg [of x] srgbEncode_gt_one [of x]
  by (metis not_le order.asym)

lemma displayable_linear:
  "displayable q \<longleftrightarrow> (case oklchToLinear q of (x, y, z) \<Rightarrow>
     0 \<le> x \<and> x \<le> 1 \<and> 0 \<le> y \<and> y \<le> 1 \<and> 0 \<le> z \<and> z \<le> 1)"
  using srgbEncode_unit_iff
  by (auto simp add: displayable_def oklchToRgb_def Let_def split: prod.splits)


section \<open>Properties of the library model\<close>

lemma culoriModel_fields [simp]:
  "toRgb culoriModel col = Some (modelToRgb col)"
  "toHsl culoriModel col = Some (modelToHsl col)"
  "toOklch culoriModel col = Some (modelToOklch col)"
  "clampChroma culoriModel = modelClampChroma"
  "parse culoriModel = modelParse"
  by (simp_all add: culoriModel_def)


lemma modelClampChroma_displayable: "displayable q \<Longrightarrow> modelClampChroma q = q"
  by (simp add: modelClampChroma_def)




lemma chromaSearch_bounds:
  "0 \<le> good \<Longrightarrow> good \<le> lo \<Longrightarrow> lo \<le> hi
    \<Longrightarrow> 0 \<le> chromaSearch q lo hi good \<and> chromaSearch q lo hi good \<le> hi"
proof (induction q lo hi good rule: chromaSearch.induct)
  case (1 q lo hi good)
  show ?case
  proof (cases "hi - lo > 0.4 / 8192")
    case wide: True
    define mid where "mid = lo + (hi - lo) * 0.5"
    have m: "lo \<le> mid \<and> mid \<le> hi" using 1(5) unfolding mid_def by argo
    show ?thesis
    proof (cases "displayable (q\<lparr>oklch_c := mid\<rparr>)")
      case True
      have "0 \<le> chromaSearch q mid hi mid \<and> chromaSearch q mid hi mid \<le> hi"
        using 1(1) [OF wide mid_def True] m 1(3,4) by simp
      then show ?thesis
        using wide True by (subst chromaSearch.simps) (simp add: mid_def Let_def)
    next
      case False
      have "0 \<le> chromaSearch q lo mid good \<and> chromaSearch q lo mid good \<le> mid"
        using 1(2) [OF wide mid_def False] 1(3,4) m by simp
      then show ?thesis
        using wide False m by (subst chromaSearch.simps) (simp add: mid_def Let_def)
    qed
  next
    case False
    then show ?thesis using 1(3,4,5) by (subst chromaSearch.simps) simp
  qed
qed

lemma grey_linear:
  "oklchToLinear (q\<lparr>oklch_c := 0\<rparr>) = (oklch_l q ^ 3, oklch_l q ^ 3, oklch_l q ^ 3)"
  by (simp add: oklchToLinear_def Let_def split: option.splits)

lemma grey_displayable:
  assumes "0 \<le> oklch_l q" "oklch_l q \<le> 1"
  shows "displayable (q\<lparr>oklch_c := 0\<rparr>)"
proof -
  have "0 \<le> oklch_l q ^ 3" using assms(1) by simp
  moreover have "oklch_l q ^ 3 \<le> 1" using assms by (simp add: power_le_one)
  ultimately show ?thesis by (simp add: displayable_linear grey_linear)
qed

lemma modelClampChroma_keeps:
  assumes "0 \<le> oklch_l q" "oklch_l q \<le> 1" "0 \<le> oklch_c q"
  shows "oklch_l (modelClampChroma q) = oklch_l q \<and> oklch_h (modelClampChroma q) = oklch_h q
    \<and> 0 \<le> oklch_c (modelClampChroma q) \<and> oklch_c (modelClampChroma q) \<le> oklch_c q"
  using grey_displayable [OF assms(1,2)] chromaSearch_bounds [of 0 0 "oklch_c q" q] assms(3)
  by (simp add: modelClampChroma_def)

lemma cube_near_one:
  fixes t :: real
  assumes "1 - 4 / 10 ^ 7 \<le> t" "t \<le> 1 + 4 / 10 ^ 7"
  shows "1 - 2 / 10 ^ 6 \<le> t ^ 3 \<and> t ^ 3 \<le> 1 + 2 / 10 ^ 6"
proof -
  have "(1 - 4 / 10 ^ 7 :: real) ^ 3 \<le> t ^ 3" by (rule power_mono) (use assms in simp_all)
  moreover have "t ^ 3 \<le> (1 + 4 / 10 ^ 7 :: real) ^ 3"
    by (rule power_mono) (use assms in simp_all)
  moreover have "1 - 2 / 10 ^ 6 \<le> (1 - 4 / 10 ^ 7 :: real) ^ 3" by (simp add: power3_eq_cube)
  moreover have "(1 + 4 / 10 ^ 7 :: real) ^ 3 \<le> 1 + 2 / 10 ^ 6" by (simp add: power3_eq_cube)
  ultimately show ?thesis by linarith
qed

lemma near_white_linear:
  assumes l: "1 - 1 / 10 ^ 7 \<le> oklch_l q" "oklch_l q \<le> 1"
    and c: "0 \<le> oklch_c q" "oklch_c q \<le> 1 / 10 ^ 7"
    and lin: "oklchToLinear q = (x, y, z)"
  shows "1 - 2 / 10 ^ 5 \<le> x \<and> x \<le> 1 + 2 / 10 ^ 5 \<and> 1 - 2 / 10 ^ 5 \<le> y \<and> y \<le> 1 + 2 / 10 ^ 5
    \<and> 1 - 2 / 10 ^ 5 \<le> z \<and> z \<le> 1 + 2 / 10 ^ 5"
proof -
  define a where "a = (case oklch_h q of None \<Rightarrow> 0 | Some h \<Rightarrow> oklch_c q * cos (h / 180 * pi))"
  define b where "b = (case oklch_h q of None \<Rightarrow> 0 | Some h \<Rightarrow> oklch_c q * sin (h / 180 * pi))"
  have ac: "\<bar>oklch_c q * cos t\<bar> \<le> oklch_c q" for t
    using c(1) abs_cos_le_one [of t] by (simp add: abs_mult mult_left_le)
  have bc: "\<bar>oklch_c q * sin t\<bar> \<le> oklch_c q" for t
    using c(1) abs_sin_le_one [of t] by (simp add: abs_mult mult_left_le)
  have a: "\<bar>a\<bar> \<le> 1 / 10 ^ 7"
  proof (cases "oklch_h q")
    case None
    then show ?thesis by (simp add: a_def)
  next
    case (Some h)
    have "\<bar>a\<bar> \<le> oklch_c q" using ac [of "h / 180 * pi"] by (simp only: a_def Some option.case)
    then show ?thesis using c(2) by (rule order_trans)
  qed
  have b: "\<bar>b\<bar> \<le> 1 / 10 ^ 7"
  proof (cases "oklch_h q")
    case None
    then show ?thesis by (simp add: b_def)
  next
    case (Some h)
    have "\<bar>b\<bar> \<le> oklch_c q" using bc [of "h / 180 * pi"] by (simp only: b_def Some option.case)
    then show ?thesis using c(2) by (rule order_trans)
  qed
  have "a \<le> 1 / 10 ^ 7 \<and> - a \<le> 1 / 10 ^ 7" using a by (simp only: abs_le_iff)
  then have a': "- (1 / 10 ^ 7) \<le> a \<and> a \<le> 1 / 10 ^ 7" by simp
  have "b \<le> 1 / 10 ^ 7 \<and> - b \<le> 1 / 10 ^ 7" using b by (simp only: abs_le_iff)
  then have b': "- (1 / 10 ^ 7) \<le> b \<and> b \<le> 1 / 10 ^ 7" by simp
  define l' where "l' = oklch_l q + 0.3963377774 * a + 0.2158037573 * b"
  define m' where "m' = oklch_l q - 0.1055613458 * a - 0.0638541728 * b"
  define s' where "s' = oklch_l q - 0.0894841775 * a - 1.2914855480 * b"
  have "1 - 4 / 10 ^ 7 \<le> l' \<and> l' \<le> 1 + 4 / 10 ^ 7" using a' b' l unfolding l'_def by simp
  then have L: "1 - 2 / 10 ^ 6 \<le> l' ^ 3 \<and> l' ^ 3 \<le> 1 + 2 / 10 ^ 6" using cube_near_one by blast
  have "1 - 4 / 10 ^ 7 \<le> m' \<and> m' \<le> 1 + 4 / 10 ^ 7" using a' b' l unfolding m'_def by simp
  then have M: "1 - 2 / 10 ^ 6 \<le> m' ^ 3 \<and> m' ^ 3 \<le> 1 + 2 / 10 ^ 6" using cube_near_one by blast
  have "1 - 4 / 10 ^ 7 \<le> s' \<and> s' \<le> 1 + 4 / 10 ^ 7" using a' b' l unfolding s'_def by simp
  then have S: "1 - 2 / 10 ^ 6 \<le> s' ^ 3 \<and> s' ^ 3 \<le> 1 + 2 / 10 ^ 6" using cube_near_one by blast
  have x: "x = 4.0767416621 * l' ^ 3 - 3.3077115913 * m' ^ 3 + 0.2309699292 * s' ^ 3"
    and y: "y = - 1.2684380046 * l' ^ 3 + 2.6097574011 * m' ^ 3 - 0.3413193965 * s' ^ 3"
    and z: "z = - 0.0041960863 * l' ^ 3 - 0.7034186147 * m' ^ 3 + 1.7076147010 * s' ^ 3"
    using lin unfolding oklchToLinear_def Let_def l'_def m'_def s'_def a_def b_def by simp_all
  show ?thesis unfolding x y z using L M S by simp
qed

lemma encode_near_one:
  assumes "1 - 2 / 10 ^ 5 \<le> x" "x \<le> 1 + 2 / 10 ^ 5"
  shows "jsround (srgbEncode x * 255) = 255"
proof -
  have b: "1 - 3 / 10 ^ 5 \<le> srgbEncode x \<and> srgbEncode x \<le> 1 + 3 / 10 ^ 5"
  proof (cases "x \<le> 1")
    case True
    have "x powr 1 \<le> x powr (5 / 12)" by (rule powr_mono') (use assms True in simp_all)
    then have "x \<le> x powr (5 / 12)" using assms by simp
    moreover have "x powr (5 / 12) \<le> 1" by (rule powr_le1) (use assms True in simp_all)
    moreover have "srgbEncode x = 211 * x powr (5 / 12) / 200 - 11 / 200"
      using assms by (simp add: srgbEncode_def)
    ultimately show ?thesis using assms by simp
  next
    case False
    then have "x powr (5 / 12) \<le> x powr 1" by (intro powr_mono) simp_all
    then have "x powr (5 / 12) \<le> x" using False by simp
    moreover have "1 \<le> x powr (5 / 12)" using False by (intro ge_one_powr_ge_zero) simp_all
    moreover have "srgbEncode x = 211 * x powr (5 / 12) / 200 - 11 / 200"
      using False by (simp add: srgbEncode_def)
    ultimately show ?thesis using assms by simp
  qed
  then have "255 \<le> srgbEncode x * 255 + 1 / 2 \<and> srgbEncode x * 255 + 1 / 2 < 256" by simp
  then have "\<lfloor>srgbEncode x * 255 + 1 / 2\<rfloor> = 255" by linarith
  then show ?thesis by (simp add: jsround_def)
qed

section \<open>Constructors and harmonies\<close>




lemma dropNulls_simps [simp]:
  "dropNulls [] = []"
  "dropNulls (Some x # xs) = x # dropNulls xs"
  "dropNulls (None # xs) = dropNulls xs"
  by (simp_all add: dropNulls_def List.map_filter_simps)









section \<open>Linear interpolation\<close>

lemma jsmod_small: "0 \<le> a \<Longrightarrow> a < b \<Longrightarrow> jsmod a b = a"
proof -
  assume a: "0 \<le> a" "a < b"
  then have "0 \<le> a / b" "a / b < 1" by simp_all
  then have "\<lfloor>a / b\<rfloor> = 0" by linarith
  then show ?thesis using \<open>0 \<le> a / b\<close> by (simp add: jsmod_def trunc_def)
qed

lemma jsmod_360_shift:
  assumes "0 \<le> h" "h < 360" "0 \<le> k"
  shows "jsmod (h + 360 * of_int k) 360 = h"
proof -
  have "0 \<le> 360 * (of_int k :: real)" using assms(3) by simp
  then have "0 \<le> h + 360 * of_int k" using assms(1) by linarith
  then have "jsmod (h + 360 * of_int k) 360 = jsmod h 360"
    using jsmod_nonneg_int_shift [of h 360 k] assms(1) by simp
  then show ?thesis using jsmod_small [of h 360] assms by simp
qed









section \<open>The colorful generator\<close>







lemma normalizeHue_id: "0 \<le> h \<Longrightarrow> h < 360 \<Longrightarrow> normalizeHue h = h"
  using jsmod_small [of h 360] jsmod_360_shift [of h 1] by (simp add: normalizeHue_def)

lemma pushed_oklch_generated:
  "col \<in> set (pushed (fromOklch lib l c h)) \<Longrightarrow> generatedWithHue lib SpaceOklch h col"
  by (auto simp add: pushed_def generatedWithHue_def split: option.splits)

lemma fromHsl_hue: "fromHsl lib h s l = Some col \<Longrightarrow> hslH (hsl col) = h"
  by (auto simp add: fromHsl_def Let_def split: option.splits)

lemma pushed_hsl_generated:
  "col \<in> set (pushed (fromHsl lib h s l)) \<Longrightarrow> generatedWithHue lib SpaceHsl h col"
  using fromHsl_hue [of lib h s l col]
  by (auto simp add: pushed_def generatedWithHue_def split: option.splits)

lemma coolSpectrumFrom_hue:
  assumes "col \<in> set (coolSpectrumFrom lib config colorSpace hueStep i n)"
    and "\<forall>m. i \<le> m \<and> m < i + n \<longrightarrow> 0 \<le> real m * hueStep \<and> real m * hueStep \<le> 160"
  shows "\<exists>h. 120 \<le> h \<and> h \<le> 280 \<and> generatedWithHue lib colorSpace h col"
  using assms
proof (induction n arbitrary: i)
  case 0
  then show ?case by simp
next
  case (Suc n)
  have b: "0 \<le> real i * hueStep \<and> real i * hueStep \<le> 160" using Suc.prems(2) by simp
  then have h: "normalizeHue (120 + real i * hueStep) = 120 + real i * hueStep"
    by (intro normalizeHue_id) simp_all
  have rest: "\<forall>m. Suc i \<le> m \<and> m < Suc i + n \<longrightarrow> 0 \<le> real m * hueStep \<and> real m * hueStep \<le> 160"
    using Suc.prems(2) by simp
  from Suc.prems(1) consider
    (here) "colorSpace = SpaceOklch" "col \<in> set (pushed (fromOklch lib
        (case fixedLightness config of None \<Rightarrow> 0.60 | Some v \<Rightarrow> v)
        (case fixedChroma config of None \<Rightarrow> 0.15 | Some v \<Rightarrow> v) (120 + real i * hueStep)))"
    | (there) "colorSpace \<noteq> SpaceOklch" "col \<in> set (pushed (fromHsl lib (120 + real i * hueStep)
        (case fixedSaturation config of None \<Rightarrow> 65 | Some v \<Rightarrow> v)
        (case fixedLightnessHsl config of None \<Rightarrow> 50 | Some v \<Rightarrow> v)))"
    | (later) "col \<in> set (coolSpectrumFrom lib config colorSpace hueStep (Suc i) n)"
    by (auto simp add: Let_def h split: if_splits)
  then show ?case
  proof cases
    case here
    then have "generatedWithHue lib colorSpace (120 + real i * hueStep) col"
      using pushed_oklch_generated by blast
    then show ?thesis using b by (intro exI [of _ "120 + real i * hueStep"]) simp
  next
    case there
    then have "colorSpace = SpaceHsl" by (cases colorSpace) simp_all
    then have "generatedWithHue lib colorSpace (120 + real i * hueStep) col"
      using there pushed_hsl_generated by blast
    then show ?thesis using b by (intro exI [of _ "120 + real i * hueStep"]) simp
  next
    case later
    then show ?thesis using Suc.IH rest by blast
  qed
qed

lemma coolSpectrum_hue_range:
  assumes "col \<in> set (generateCoolSpectrum lib cnt config colorSpace)"
  shows "\<exists>h. 120 \<le> h \<and> h \<le> 280 \<and> generatedWithHue lib colorSpace h col"
proof -
  define hueStep :: real where
    "hueStep = (280 - 120) / (if cnt - 1 = 0 then 1 else real_of_int (cnt - 1))"
  have "0 \<le> real m * hueStep \<and> real m * hueStep \<le> 160" if "m < nat cnt" for m
  proof (cases "cnt - 1 = 0")
    case True
    then have "m = 0" using that by simp
    then show ?thesis by simp
  next
    case False
    then have c: "2 \<le> cnt" using that by linarith
    then have m: "real m \<le> real_of_int (cnt - 1)" using that by simp
    have pos: "0 < real_of_int (cnt - 1)" using c by simp
    have "real m * hueStep = 160 * (real m / real_of_int (cnt - 1))"
      using False by (simp add: hueStep_def)
    moreover have "0 \<le> real m / real_of_int (cnt - 1)" using pos by simp
    moreover have "real m / real_of_int (cnt - 1) \<le> 1" using m pos by simp
    ultimately show ?thesis by simp
  qed
  then have "\<forall>m. 0 \<le> m \<and> m < 0 + nat cnt \<longrightarrow> 0 \<le> real m * hueStep \<and> real m * hueStep \<le> 160"
    by simp
  then show ?thesis
    using assms coolSpectrumFrom_hue [of col lib config colorSpace hueStep 0 "nat cnt"]
    by (simp add: generateCoolSpectrum_def hueStep_def)
qed

section \<open>Contrast\<close>

lemma modelParse_white: "modelParse ''#FFFFFF'' = Some \<lparr>rgb_r = 1, rgb_g = 1, rgb_b = 1\<rparr>"
  by (simp add: modelParse_def hexByte_def hexVal_def)

lemma modelParse_black: "modelParse ''#000000'' = Some \<lparr>rgb_r = 0, rgb_g = 0, rgb_b = 0\<rparr>"
  by (simp add: modelParse_def hexByte_def hexVal_def)

lemma root3_near_one:
  "1 - 1 / 10 ^ 10 \<le> root 3 (9999999999 / 10000000000) \<and> root 3 (9999999999 / 10000000000) \<le> 1"
proof -
  have e: "root 3 ((9999999999 / 10000000000) ^ 3) = (9999999999 / 10000000000 :: real)"
    by (rule real_root_power_cancel) simp_all
  have "root 3 ((9999999999 / 10000000000 :: real) ^ 3) \<le> root 3 (9999999999 / 10000000000)"
    by (rule real_root_le_mono) (simp_all add: power3_eq_cube)
  then have lo: "(9999999999 / 10000000000 :: real) \<le> root 3 (9999999999 / 10000000000)"
    unfolding e .
  have "root 3 (9999999999 / 10000000000) \<le> root 3 (1 :: real)"
    by (rule real_root_le_mono) simp_all
  then have hi: "root 3 (9999999999 / 10000000000) \<le> (1 :: real)"
    by (simp only: real_root_one zero_less_numeral)
  show ?thesis using lo hi by simp
qed

lemma white_oklch:
  "1 - 1 / 10 ^ 7 \<le> oklch_l (rgbToOklch \<lparr>rgb_r = 1, rgb_g = 1, rgb_b = 1\<rparr>) \<and>
   oklch_l (rgbToOklch \<lparr>rgb_r = 1, rgb_g = 1, rgb_b = 1\<rparr>) \<le> 1 \<and>
   0 \<le> oklch_c (rgbToOklch \<lparr>rgb_r = 1, rgb_g = 1, rgb_b = 1\<rparr>) \<and>
   oklch_c (rgbToOklch \<lparr>rgb_r = 1, rgb_g = 1, rgb_b = 1\<rparr>) \<le> 1 / 10 ^ 7"
proof -
  define u :: real where "u = root 3 (9999999999 / 10000000000)"
  have u: "1 - 1 / 10 ^ 10 \<le> u \<and> u \<le> 1" using root3_near_one by (simp add: u_def)
  have d: "srgbDecode 1 = 1" by (simp add: srgbDecode_def)
  define a where "a = 1.9779984951 * 1 - 2.4285922050 * u + 0.4505937099 * 1"
  define b where "b = 0.0259040371 * 1 + 0.7827717662 * u - 0.8086757660 * 1"
  have a: "\<bar>a\<bar> \<le> 1 / 10 ^ 9" using u unfolding a_def by (simp add: abs_le_iff)
  have b: "\<bar>b\<bar> \<le> 4 / 10 ^ 8" using u unfolding b_def by (simp add: abs_le_iff)
  have "sqrt (a * a + b * b) \<le> \<bar>a\<bar> + \<bar>b\<bar>"
    using sqrt_sum_squares_le_sum_abs [of a b] by (simp add: power2_eq_square)
  then have c: "sqrt (a * a + b * b) \<le> 1 / 10 ^ 7" using a b by simp
  have l: "oklch_l (rgbToOklch \<lparr>rgb_r = 1, rgb_g = 1, rgb_b = 1\<rparr>)
      = 0.2104542553 + 0.7936177850 * u - 0.0040720468"
    by (simp add: rgbToOklch_def Let_def d u_def)
  have cc: "oklch_c (rgbToOklch \<lparr>rgb_r = 1, rgb_g = 1, rgb_b = 1\<rparr>) = sqrt (a * a + b * b)"
    by (simp add: rgbToOklch_def Let_def d u_def a_def b_def)
  show ?thesis unfolding l cc using u c by simp
qed

lemma near_white_round:
  assumes "1 - 1 / 10 ^ 7 \<le> oklch_l q" "oklch_l q \<le> 1" "0 \<le> oklch_c q" "oklch_c q \<le> 1 / 10 ^ 7"
  shows "roundRgb (oklchToRgb q) = \<lparr>rgbR = 255, rgbG = 255, rgbB = 255\<rparr>"
proof -
  obtain x y z where lin: "oklchToLinear q = (x, y, z)" by (cases "oklchToLinear q")
  from near_white_linear [OF assms lin] show ?thesis
    by (simp add: roundRgb_def oklchToRgb_def lin encode_near_one)
qed

lemma white_parsed:
  "parseColor culoriModel ''#FFFFFF'' \<noteq> None \<and>
   rgb (the (parseColor culoriModel ''#FFFFFF'')) = \<lparr>rgbR = 255, rgbG = 255, rgbB = 255\<rparr>"
proof -
  let ?q = "rgbToOklch \<lparr>rgb_r = 1, rgb_g = 1, rgb_b = 1\<rparr>"
  have k: "oklch_l (modelClampChroma ?q) = oklch_l ?q \<and>
      0 \<le> oklch_c (modelClampChroma ?q) \<and> oklch_c (modelClampChroma ?q) \<le> oklch_c ?q"
    using modelClampChroma_keeps [of ?q] white_oklch by simp
  have "roundRgb (oklchToRgb (modelClampChroma ?q)) = \<lparr>rgbR = 255, rgbG = 255, rgbB = 255\<rparr>"
    by (rule near_white_round) (use k white_oklch in simp_all)
  then show ?thesis
    by (simp add: parseColor_def modelParse_white modelToOklch_def modelToRgb_def Let_def)
qed

lemma black_parsed:
  "parseColor culoriModel ''#000000'' \<noteq> None \<and>
   rgb (the (parseColor culoriModel ''#000000'')) = \<lparr>rgbR = 0, rgbG = 0, rgbB = 0\<rparr>"
proof -
  let ?q = "rgbToOklch \<lparr>rgb_r = 0, rgb_g = 0, rgb_b = 0\<rparr>"
  have q: "?q = \<lparr>oklch_l = 0, oklch_c = 0, oklch_h = None\<rparr>"
    by (simp add: rgbToOklch_def Let_def srgbDecode_def)
  have "displayable ?q"
    by (simp add: q displayable_linear oklchToLinear_def)
  then have "modelClampChroma ?q = ?q" by (rule modelClampChroma_displayable)
  moreover have "roundRgb (oklchToRgb ?q) = \<lparr>rgbR = 0, rgbG = 0, rgbB = 0\<rparr>"
    by (simp add: q roundRgb_def oklchToRgb_def oklchToLinear_def srgbEncode_def jsround_def)
  ultimately show ?thesis
    by (simp add: parseColor_def modelParse_black modelToOklch_def modelToRgb_def Let_def)
qed

lemma Y_black: "sRGBtoY \<lparr>rgbR = 0, rgbG = 0, rgbB = 0\<rparr> = 0"
  by (simp add: sRGBtoY_def)

lemma Y_white: "sRGBtoY \<lparr>rgbR = 255, rgbG = 255, rgbB = 255\<rparr> = 1.0000001"
  by (simp add: sRGBtoY_def)

lemma powr_ge_one: "1 \<le> (x::real) \<Longrightarrow> 0 \<le> a \<Longrightarrow> 1 \<le> x powr a"
  using ge_one_powr_ge_zero by blast

lemma apca_white_on_black: "APCAcontrast 1.0000001 0 < - 1"
proof -
  have "1 \<le> (1.0000001::real) powr 0.62" by (rule powr_ge_one) simp_all
  then have "(0 - (1.0000001::real) powr 0.62) * 1.14 \<le> - 1.14" by simp
  then show ?thesis by (simp add: APCAcontrast_def Let_def)
qed

lemma apca_black_on_black: "APCAcontrast 0 0 = 0"
  by (simp add: APCAcontrast_def Let_def)

lemma apca_black_on_white: "1 < APCAcontrast 0 1.0000001"
proof -
  have "1 \<le> (1.0000001::real) powr 0.56" by (rule powr_ge_one) simp_all
  then have "1.14 \<le> ((1.0000001::real) powr 0.56 - 0) * 1.14" by simp
  then show ?thesis by (simp add: APCAcontrast_def Let_def)
qed

lemma apca_white_on_white: "APCAcontrast 1.0000001 1.0000001 = 0"
proof -
  have "(10000001 / 10000000 :: real) powr (31 / 50) \<le> (10000001 / 10000000) powr (13 / 20)"
    by (rule powr_mono) simp_all
  then have "- 5 < (10000001 / 10000000 :: real) powr (13 / 20) * 57
      - (10000001 / 10000000) powr (31 / 50) * 57"
    by linarith
  then show ?thesis by (simp add: APCAcontrast_def Let_def)
qed

section \<open>Image extraction\<close>

lemma nearestFrom_bound:
  "minIdx < i + length cs \<or> (cs \<noteq> [] \<and> minDist = None)
    \<Longrightarrow> nearestFrom cs pixel i minDist minIdx < i + length cs"
proof (induction cs arbitrary: i minDist minIdx)
  case Nil
  then show ?case by simp
next
  case (Cons c cs)
  show ?case
  proof (cases "case minDist of None \<Rightarrow> True | Some m \<Rightarrow> colorDistance pixel c < m")
    case True
    have "nearestFrom cs pixel (Suc i) (Some (colorDistance pixel c)) i < Suc i + length cs"
      by (rule Cons.IH) simp
    then show ?thesis using True by (simp add: Let_def)
  next
    case False
    then have "minDist \<noteq> None" by (auto split: option.splits)
    then have "minIdx < Suc i + length cs" using Cons.prems by auto
    then have "nearestFrom cs pixel (Suc i) minDist minIdx < Suc i + length cs"
      by (intro Cons.IH) simp
    then show ?thesis using False by (simp add: Let_def)
  qed
qed

lemma nearestIndex_bound: "centroids \<noteq> [] \<Longrightarrow> nearestIndex centroids pixel < length centroids"
  using nearestFrom_bound [of 0 0 centroids None pixel] by (simp add: nearestIndex_def)

lemma members_update_sum:
  assumes "i < length cls"
  shows "sum_list (map members (cls[i := (cls ! i)\<lparr>members := members (cls ! i) + 1\<rparr>]))
    = sum_list (map members cls) + 1"
proof -
  have "sum_list ((map members cls)[i := members (cls ! i) + 1])
      = sum_list (map members cls) + (members (cls ! i) + 1) - map members cls ! i"
    by (rule sum_list_update) (use assms in simp)
  then show ?thesis using assms by (simp add: map_update)
qed

lemma countMembers_fold:
  assumes "centroids \<noteq> []" and "length cls = length centroids"
  shows "length (fold (\<lambda>pixel cls.
            (let minIdx = nearestIndex centroids pixel
             in cls[minIdx := (cls ! minIdx)\<lparr>members := members (cls ! minIdx) + 1\<rparr>])) pixels cls)
        = length centroids \<and>
     sum_list (map members (fold (\<lambda>pixel cls.
            (let minIdx = nearestIndex centroids pixel
             in cls[minIdx := (cls ! minIdx)\<lparr>members := members (cls ! minIdx) + 1\<rparr>])) pixels cls))
        = sum_list (map members cls) + length pixels"
  using assms(2)
proof (induction pixels arbitrary: cls)
  case Nil
  then show ?case by simp
next
  case (Cons p ps)
  have i: "nearestIndex centroids p < length cls"
    using nearestIndex_bound [OF assms(1)] Cons.prems by simp
  let ?cls = "cls[nearestIndex centroids p :=
      (cls ! nearestIndex centroids p)\<lparr>members := members (cls ! nearestIndex centroids p) + 1\<rparr>]"
  have "length ?cls = length centroids" using Cons.prems by simp
  from Cons.IH [OF this] members_update_sum [OF i] show ?case by (simp add: Let_def)
qed

lemma countMembers_sum:
  assumes "centroids \<noteq> []"
  shows "sum_list (map members (countMembers centroids pixels)) = length pixels"
proof -
  have z: "sum_list (map members (map (\<lambda>c. \<lparr>center = c, members = 0\<rparr>) centroids)) = 0"
    by (induction centroids) simp_all
  show ?thesis
    unfolding countMembers_def
    using countMembers_fold [OF assms, of "map (\<lambda>c. \<lparr>center = c, members = 0\<rparr>) centroids" pixels] z
    by simp
qed

lemma filter_members_sum:
  "sum_list (map members (filter (\<lambda>c. members c > 0) cls)) = sum_list (map members cls)"
  by (induction cls) simp_all

lemma pickIndex_some:
  "ds \<noteq> [] \<Longrightarrow> rnd \<le> sum_list ds \<Longrightarrow> \<exists>i < length ds. pickIndex rnd ds = Some i"
proof (induction ds arbitrary: rnd)
  case Nil
  then show ?case by simp
next
  case (Cons d ds)
  show ?case
  proof (cases "rnd - d \<le> 0")
    case True
    then show ?thesis by simp
  next
    case False
    then have pos: "0 < rnd - d" by simp
    have le: "rnd - d \<le> sum_list ds" using Cons.prems(2) by simp
    have "ds \<noteq> []" using pos le by auto
    from Cons.IH [OF this le] obtain i where "i < length ds" "pickIndex (rnd - d) ds = Some i"
      by blast
    then show ?thesis using False by simp
  qed
qed

lemma seedWeights_some:
  assumes "centroids \<noteq> []"
  shows "\<exists>ds. seedWeights pixels centroids = Some ds \<and> length ds = length pixels
    \<and> 0 \<le> sum_list ds"
proof -
  have "0 \<le> sum_list (map (\<lambda>pixel. (fold min (map (colorDistance pixel) (tl centroids))
                                (colorDistance pixel (hd centroids))) ^ 2) pixels)"
    by (rule sum_list_nonneg) auto
  then show ?thesis using assms by (simp add: seedWeights_def)
qed

lemma seedCentroids_some:
  assumes src: "\<forall>i. 0 \<le> src i \<and> src i < 1" and px: "pixels \<noteq> []"
  shows "centroids \<noteq> [] \<Longrightarrow> length centroids \<le> k
    \<Longrightarrow> \<exists>cs. seedCentroids src j pixels k centroids = Some cs \<and> length cs = k"
proof (induction "k - length centroids" arbitrary: centroids j)
  case 0
  then show ?case by (subst seedCentroids.simps) simp
next
  case (Suc n)
  then have lt: "length centroids < k" by simp
  obtain ds where ds: "seedWeights pixels centroids = Some ds" "length ds = length pixels"
      "0 \<le> sum_list ds"
    using seedWeights_some [OF Suc.prems(1)] by blast
  have "src j \<le> 1" using src by (simp add: less_imp_le)
  then have "src j * sum_list ds \<le> 1 * sum_list ds"
    using ds(3) by (rule mult_right_mono)
  then have le: "src j * sum_list ds \<le> sum_list ds" by simp
  have "ds \<noteq> []" using ds(2) px by auto
  from pickIndex_some [OF this le] obtain i where i: "pickIndex (src j * sum_list ds) ds = Some i"
    by blast
  have "\<exists>cs. seedCentroids src (Suc j) pixels k (centroids @ [pixels ! i]) = Some cs \<and> length cs = k"
    by (rule Suc.hyps(1)) (use Suc.hyps(2) lt in simp_all)
  then show ?case
    using lt ds(1) i by (subst seedCentroids.simps) (simp add: Let_def)
qed

lemma assignPixels_some:
  assumes "centroids \<noteq> []" and "length centroids = k"
  shows "\<exists>cl. assignPixels k centroids pixels = Some cl \<and> length cl = k"
proof -
  let ?f = "\<lambda>pixel acc.
            case acc of
              None \<Rightarrow> None
            | Some clusters \<Rightarrow>
               (let minIdx = nearestIndex centroids pixel
                in if minIdx < length clusters
                   then Some (clusters[minIdx := clusters ! minIdx @ [pixel]])
                   else None)"
  have "length cl0 = k \<Longrightarrow> \<exists>cl. fold ?f pixels (Some cl0) = Some cl \<and> length cl = k" for cl0
  proof (induction pixels arbitrary: cl0)
    case Nil
    then show ?case by simp
  next
    case (Cons p ps)
    have "nearestIndex centroids p < length cl0"
      using nearestIndex_bound [OF assms(1)] assms(2) Cons.prems by simp
    then show ?case using Cons by (simp add: Let_def)
  qed
  then show ?thesis by (simp add: assignPixels_def)
qed

lemma updateCentroids_length: "length (updateCentroids k centroids clusters) = length centroids"
proof -
  have "length (fold (\<lambda>i cs. if length (clusters ! i) > 0
                   then cs[i := \<lparr>rgbR = meanOf rgbR (clusters ! i), rgbG = meanOf rgbG (clusters ! i),
                                  rgbB = meanOf rgbB (clusters ! i)\<rparr>]
                   else cs) is cs0) = length cs0" for "is" cs0
    by (induction "is" arbitrary: cs0) simp_all
  then show ?thesis by (simp add: updateCentroids_def)
qed

lemma lloyd_some:
  "centroids \<noteq> [] \<Longrightarrow> length centroids = k
    \<Longrightarrow> \<exists>cs. lloyd n k pixels centroids = Some cs \<and> length cs = k"
proof (induction n arbitrary: centroids)
  case 0
  then show ?case by simp
next
  case (Suc n)
  obtain cl where cl: "assignPixels k centroids pixels = Some cl"
    using assignPixels_some [OF Suc.prems] by blast
  have l: "length (updateCentroids k centroids cl) = k"
    using updateCentroids_length Suc.prems(2) by simp
  then have "updateCentroids k centroids cl \<noteq> []" using Suc.prems by auto
  from Suc.IH [OF this l] show ?case by (simp add: cl)
qed

lemma kMeans_returns:
  assumes "\<forall>i. 0 \<le> src i \<and> src i < 1" and "1 \<le> k"
  shows "\<exists>clusters. kMeansClustering src pixels k iterations = Some clusters \<and>
    sum_list (map members clusters) = length pixels"
proof (cases "pixels = []")
  case True
  then show ?thesis by (simp add: kMeansClustering_def)
next
  case ne: False
  show ?thesis
  proof (cases "int (length pixels) \<le> k")
    case True
    have "sum_list (map members (map (\<lambda>p. \<lparr>center = p, members = 1\<rparr>) pixels)) = length pixels"
      by (induction pixels) simp_all
    then show ?thesis using ne True by (simp add: kMeansClustering_def)
  next
    case False
    define first where "first = \<lfloor>src 0 * real (length pixels)\<rfloor>"
    have "0 \<le> src 0 * real (length pixels)" using assms(1) by simp
    then have f0: "0 \<le> first" by (simp add: first_def)
    have "src 0 * real (length pixels) < 1 * real (length pixels)"
      by (rule mult_strict_right_mono) (use assms(1) ne in simp_all)
    then have f1: "first < int (length pixels)" by (simp add: first_def floor_less_iff)
    obtain seeded where s: "seedCentroids src 1 pixels (nat k) [pixels ! nat first] = Some seeded"
        "length seeded = nat k"
      using seedCentroids_some [OF assms(1) ne, where centroids = "[pixels ! nat first]"
          and k = "nat k" and j = 1] assms(2)
      by (auto simp add: Suc_le_eq)
    have sne: "seeded \<noteq> []" using s(2) assms(2) by auto
    obtain cs where c: "lloyd iterations (nat k) pixels seeded = Some cs" "length cs = nat k"
      using lloyd_some [OF sne s(2)] by blast
    have cne: "cs \<noteq> []" using c(2) assms(2) by auto
    show ?thesis
      using ne False f0 f1 s(1) c(1) countMembers_sum [OF cne, of pixels]
      by (simp add: kMeansClustering_def Let_def first_def [symmetric] filter_members_sum)
  qed
qed

lemma kMeans_positive:
  "kMeansClustering src pixels k iterations = Some clusters \<Longrightarrow> \<forall>c \<in> set clusters. 0 < members c"
  by (auto simp add: kMeansClustering_def Let_def split: if_splits option.splits)

lemma sortClusters_sorted:
  "i < j \<Longrightarrow> j < length (sortClusters cls)
    \<Longrightarrow> members (sortClusters cls ! j) \<le> members (sortClusters cls ! i)"
proof -
  assume a: "i < j" "j < length (sortClusters cls)"
  have "sorted (map (\<lambda>c. - int (members c)) (sortClusters cls))"
    by (simp add: sortClusters_def)
  then have "map (\<lambda>c. - int (members c)) (sortClusters cls) ! i
      \<le> map (\<lambda>c. - int (members c)) (sortClusters cls) ! j"
    by (rule sorted_nth_mono) (use a in simp_all)
  then show ?thesis using a by simp
qed

lemma sortClusters_set: "set (sortClusters cls) = set cls"
  by (simp add: sortClusters_def)

lemma halves_unit: "\<forall>i. 0 \<le> halves i \<and> halves i < 1"
  by (simp add: halves_def)

lemma upt4: "[0 ..< 4] = [0, 1, 2, Suc 2]"
  by (simp add: upt_rec numeral_eq_Suc)

lemma four_pixels:
  "getPixelsFromImageData fourPixels =
    [\<lparr>rgbR = 200, rgbG = 30, rgbB = 30\<rparr>, \<lparr>rgbR = 30, rgbG = 200, rgbB = 30\<rparr>,
     \<lparr>rgbR = 30, rgbG = 30, rgbB = 200\<rparr>, \<lparr>rgbR = 210, rgbG = 40, rgbB = 40\<rparr>]"
  by (simp add: getPixelsFromImageData_def fourPixels_def keepPixel_def Let_def upt4)

lemma four_seeded:
  "seedCentroids halves 1
     [\<lparr>rgbR = 200, rgbG = 30, rgbB = 30\<rparr>, \<lparr>rgbR = 30, rgbG = 200, rgbB = 30\<rparr>,
      \<lparr>rgbR = 30, rgbG = 30, rgbB = 200\<rparr>, \<lparr>rgbR = 210, rgbG = 40, rgbB = 40\<rparr>] 2
     [\<lparr>rgbR = 30, rgbG = 30, rgbB = 200\<rparr>]
   = Some [\<lparr>rgbR = 30, rgbG = 30, rgbB = 200\<rparr>, \<lparr>rgbR = 30, rgbG = 200, rgbB = 30\<rparr>]"
  apply (subst seedCentroids.simps)
  apply (simp add: seedWeights_def colorDistance_def halves_def Let_def)
  apply (subst seedCentroids.simps)
  apply simp
  done

lemma upt2: "[0 ..< 2] = [0, 1]"
  by (simp add: upt_rec numeral_eq_Suc)

lemma four_step1:
  "lloyd (Suc n) 2
     [\<lparr>rgbR = 200, rgbG = 30, rgbB = 30\<rparr>, \<lparr>rgbR = 30, rgbG = 200, rgbB = 30\<rparr>,
      \<lparr>rgbR = 30, rgbG = 30, rgbB = 200\<rparr>, \<lparr>rgbR = 210, rgbG = 40, rgbB = 40\<rparr>]
     [\<lparr>rgbR = 30, rgbG = 30, rgbB = 200\<rparr>, \<lparr>rgbR = 30, rgbG = 200, rgbB = 30\<rparr>]
   = lloyd n 2
     [\<lparr>rgbR = 200, rgbG = 30, rgbB = 30\<rparr>, \<lparr>rgbR = 30, rgbG = 200, rgbB = 30\<rparr>,
      \<lparr>rgbR = 30, rgbG = 30, rgbB = 200\<rparr>, \<lparr>rgbR = 210, rgbG = 40, rgbB = 40\<rparr>]
     [\<lparr>rgbR = 147, rgbG = 33, rgbB = 90\<rparr>, \<lparr>rgbR = 30, rgbG = 200, rgbB = 30\<rparr>]"
  by (simp add: assignPixels_def nearestIndex_def colorDistance_def Let_def updateCentroids_def
      upt2 meanOf_def jsround_def numeral_2_eq_2)

lemma four_step2:
  "lloyd (Suc n) 2
     [\<lparr>rgbR = 200, rgbG = 30, rgbB = 30\<rparr>, \<lparr>rgbR = 30, rgbG = 200, rgbB = 30\<rparr>,
      \<lparr>rgbR = 30, rgbG = 30, rgbB = 200\<rparr>, \<lparr>rgbR = 210, rgbG = 40, rgbB = 40\<rparr>]
     [\<lparr>rgbR = 147, rgbG = 33, rgbB = 90\<rparr>, \<lparr>rgbR = 30, rgbG = 200, rgbB = 30\<rparr>]
   = lloyd n 2
     [\<lparr>rgbR = 200, rgbG = 30, rgbB = 30\<rparr>, \<lparr>rgbR = 30, rgbG = 200, rgbB = 30\<rparr>,
      \<lparr>rgbR = 30, rgbG = 30, rgbB = 200\<rparr>, \<lparr>rgbR = 210, rgbG = 40, rgbB = 40\<rparr>]
     [\<lparr>rgbR = 147, rgbG = 33, rgbB = 90\<rparr>, \<lparr>rgbR = 30, rgbG = 200, rgbB = 30\<rparr>]"
  by (simp add: assignPixels_def nearestIndex_def colorDistance_def Let_def updateCentroids_def
      upt2 meanOf_def jsround_def numeral_2_eq_2)

lemma four_stable:
  "lloyd n 2
     [\<lparr>rgbR = 200, rgbG = 30, rgbB = 30\<rparr>, \<lparr>rgbR = 30, rgbG = 200, rgbB = 30\<rparr>,
      \<lparr>rgbR = 30, rgbG = 30, rgbB = 200\<rparr>, \<lparr>rgbR = 210, rgbG = 40, rgbB = 40\<rparr>]
     [\<lparr>rgbR = 147, rgbG = 33, rgbB = 90\<rparr>, \<lparr>rgbR = 30, rgbG = 200, rgbB = 30\<rparr>]
   = Some [\<lparr>rgbR = 147, rgbG = 33, rgbB = 90\<rparr>, \<lparr>rgbR = 30, rgbG = 200, rgbB = 30\<rparr>]"
proof (induction n)
  case 0
  show ?case by simp
next
  case (Suc n)
  show ?case by (simp only: four_step2 Suc)
qed

lemma four_clusters:
  "kMeansClustering halves (getPixelsFromImageData fourPixels) 2 (Suc m) =
    Some [\<lparr>center = \<lparr>rgbR = 147, rgbG = 33, rgbB = 90\<rparr>, members = 3\<rparr>,
          \<lparr>center = \<lparr>rgbR = 30, rgbG = 200, rgbB = 30\<rparr>, members = 1\<rparr>]"
proof -
  have l: "lloyd (Suc m) 2
     [\<lparr>rgbR = 200, rgbG = 30, rgbB = 30\<rparr>, \<lparr>rgbR = 30, rgbG = 200, rgbB = 30\<rparr>,
      \<lparr>rgbR = 30, rgbG = 30, rgbB = 200\<rparr>, \<lparr>rgbR = 210, rgbG = 40, rgbB = 40\<rparr>]
     [\<lparr>rgbR = 30, rgbG = 30, rgbB = 200\<rparr>, \<lparr>rgbR = 30, rgbG = 200, rgbB = 30\<rparr>]
   = Some [\<lparr>rgbR = 147, rgbG = 33, rgbB = 90\<rparr>, \<lparr>rgbR = 30, rgbG = 200, rgbB = 30\<rparr>]"
    by (simp only: four_step1 four_stable)
  have c: "countMembers [\<lparr>rgbR = 147, rgbG = 33, rgbB = 90\<rparr>, \<lparr>rgbR = 30, rgbG = 200, rgbB = 30\<rparr>]
      [\<lparr>rgbR = 200, rgbG = 30, rgbB = 30\<rparr>, \<lparr>rgbR = 30, rgbG = 200, rgbB = 30\<rparr>,
      \<lparr>rgbR = 30, rgbG = 30, rgbB = 200\<rparr>, \<lparr>rgbR = 210, rgbG = 40, rgbB = 40\<rparr>] =
      [\<lparr>center = \<lparr>rgbR = 147, rgbG = 33, rgbB = 90\<rparr>, members = 3\<rparr>,
       \<lparr>center = \<lparr>rgbR = 30, rgbG = 200, rgbB = 30\<rparr>, members = 1\<rparr>]"
    by (simp add: countMembers_def nearestIndex_def colorDistance_def Let_def)
  show ?thesis
    unfolding four_pixels
    by (simp add: kMeansClustering_def Let_def halves_def four_seeded [simplified] l [simplified] c)
qed

lemma four_dominant:
  "dominantClusters halves fourPixels 2 =
    Some [\<lparr>center = \<lparr>rgbR = 147, rgbG = 33, rgbB = 90\<rparr>, members = 3\<rparr>,
          \<lparr>center = \<lparr>rgbR = 30, rgbG = 200, rgbB = 30\<rparr>, members = 1\<rparr>]"
  proof -
  have "(10 :: nat) = Suc 9" by simp
  then show ?thesis
    using four_clusters [of 9] by (simp add: dominantClusters_def sortClusters_def)
qed

lemma parseColor_model_some:
  "modelParse s = Some p \<Longrightarrow> \<exists>col. parseColor culoriModel s = Some col"
  by (simp add: parseColor_def Let_def)

lemma four_hex:
  "rgbToHex \<lparr>rgbR = 147, rgbG = 33, rgbB = 90\<rparr> = ''#93215a'' \<and>
   rgbToHex \<lparr>rgbR = 30, rgbG = 200, rgbB = 30\<rparr> = ''#1ec81e''"
  by (simp add: rgbToHex_def toHex_def hex2_def digitChar_def)

lemma four_colors:
  "length (clusterColors culoriModel
     [\<lparr>center = \<lparr>rgbR = 147, rgbG = 33, rgbB = 90\<rparr>, members = 3\<rparr>,
      \<lparr>center = \<lparr>rgbR = 30, rgbG = 200, rgbB = 30\<rparr>, members = 1\<rparr>]) = 2"
proof -
  obtain a where a: "parseColor culoriModel ''#93215a'' = Some a"
    using parseColor_model_some [of "''#93215a''"]
    by (auto simp add: modelParse_def hexByte_def hexVal_def)
  obtain b where b: "parseColor culoriModel ''#1ec81e'' = Some b"
    using parseColor_model_some [of "''#1ec81e''"]
    by (auto simp add: modelParse_def hexByte_def hexVal_def)
  show ?thesis by (simp add: clusterColors_def List.map_filter_simps four_hex a b)
qed

section \<open>Claims\<close>











text \<open>
  C6.  When the configuration supplies a seed, two calls of \<open>generateColorful\<close> with the same
  configuration and colour space return the same list of colours, whatever the clock reads
  at either call (the clock being the only input of the function besides its arguments).
\<close>

theorem seeded_colorful_deterministic:
  assumes "seed config = Some sd"
  shows "generateColorful lib now1 config colorSpace = generateColorful lib now2 config colorSpace"
  using assms by (simp add: generateColorful_def)

theorem seeded_colorful_deterministic_witness:
  "seed coolSeed42 = Some 42 \<and>
   generateColorful culoriModel 0 coolSeed42 SpaceOklch =
   generateColorful culoriModel 1 coolSeed42 SpaceOklch"
  using seeded_colorful_deterministic [of coolSeed42 42 culoriModel 0 SpaceOklch 1]
  by (simp add: coolSeed42_def)




text \<open>
  C8.  The best text colour is white on a pure black background and black on a pure white
  background, the choice being made by comparing the magnitudes of the APCA contrast of
  white and of black against the background.  The library parses \<open>#FFFFFF\<close> to the RGB
  triple 255, 255, 255 and \<open>#000000\<close> to 0, 0, 0.
\<close>

theorem contrast_text_black_white:
  assumes "parseColor lib ''#FFFFFF'' = Some white"
    and "rgb white = \<lparr>rgbR = 255, rgbG = 255, rgbB = 255\<rparr>"
    and "parseColor lib ''#000000'' = Some black"
    and "rgb black = \<lparr>rgbR = 0, rgbG = 0, rgbB = 0\<rparr>"
  shows "getContrastTextColor lib (AsString ''#000000'') = Inr ''#FFFFFF'' \<and>
    \<bar>getAPCAContrast white black\<bar> > \<bar>getAPCAContrast black black\<bar> \<and>
    getContrastTextColor lib (AsString ''#FFFFFF'') = Inr ''#000000'' \<and>
    \<bar>getAPCAContrast black white\<bar> > \<bar>getAPCAContrast white white\<bar>"
proof -
  have wk: "getAPCAContrast white black < - 100"
    using apca_white_on_black by (simp add: getAPCAContrast_def assms Y_black Y_white)
  have kk: "getAPCAContrast black black = 0"
    using apca_black_on_black by (simp add: getAPCAContrast_def assms Y_black)
  have kw: "100 < getAPCAContrast black white"
    using apca_black_on_white by (simp add: getAPCAContrast_def assms Y_black Y_white)
  have ww: "getAPCAContrast white white = 0"
    using apca_white_on_white by (simp add: getAPCAContrast_def assms Y_white)
  show ?thesis
    using wk kk kw ww by (simp add: getContrastTextColor_def assms Let_def)
qed

theorem contrast_text_black_white_witness:
  "parseColor culoriModel ''#FFFFFF'' = Some (the (parseColor culoriModel ''#FFFFFF'')) \<and>
   rgb (the (parseColor culoriModel ''#FFFFFF'')) = \<lparr>rgbR = 255, rgbG = 255, rgbB = 255\<rparr> \<and>
   parseColor culoriModel ''#000000'' = Some (the (parseColor culoriModel ''#000000'')) \<and>
   rgb (the (parseColor culoriModel ''#000000'')) = \<lparr>rgbR = 0, rgbG = 0, rgbB = 0\<rparr> \<and>
   getContrastTextColor culoriModel (AsString ''#000000'') = Inr ''#FFFFFF'' \<and>
   getContrastTextColor culoriModel (AsString ''#FFFFFF'') = Inr ''#000000''"
proof -
  have w: "parseColor culoriModel ''#FFFFFF'' = Some (the (parseColor culoriModel ''#FFFFFF''))"
    using white_parsed by simp
  have k: "parseColor culoriModel ''#000000'' = Some (the (parseColor culoriModel ''#000000''))"
    using black_parsed by simp
  have wr: "rgb (the (parseColor culoriModel ''#FFFFFF'')) = \<lparr>rgbR = 255, rgbG = 255, rgbB = 255\<rparr>"
    using white_parsed by simp
  have kr: "rgb (the (parseColor culoriModel ''#000000'')) = \<lparr>rgbR = 0, rgbG = 0, rgbB = 0\<rparr>"
    using black_parsed by simp
  show ?thesis
    using contrast_text_black_white [OF w wr k kr] w wr k kr by blast
qed

text \<open>
  C9.  For every image data and every colour count of at least 1, the extraction returns;
  its colours are the parsed centres of the clusters in their order after the sort, no
  cluster is empty, and the member counts are non-increasing: at positions \<open>i < j\<close> the
  count at \<open>i\<close> is at least the count at \<open>j\<close>.
\<close>

theorem extraction_counts_sorted:
  assumes "\<forall>i. 0 \<le> src i \<and> src i < 1" and "1 \<le> colorCount"
  shows "\<exists>clusters. dominantClusters src dat colorCount = Some clusters \<and>
    extractColorsFromImage lib src dat colorCount = Some (clusterColors lib clusters) \<and>
    (\<forall>c \<in> set clusters. 0 < members c) \<and>
    (\<forall>i j. i < j \<longrightarrow> j < length clusters \<longrightarrow> members (clusters ! j) \<le> members (clusters ! i))"
proof -
  obtain cls where k: "kMeansClustering src (getPixelsFromImageData dat) colorCount 10 = Some cls"
    using kMeans_returns [OF assms] by blast
  have d: "dominantClusters src dat colorCount = Some (sortClusters cls)"
    by (simp add: dominantClusters_def k)
  have e: "extractColorsFromImage lib src dat colorCount = Some (clusterColors lib (sortClusters cls))"
    by (simp add: extractColorsFromImage_def d)
  show ?thesis
    using d e kMeans_positive [OF k] sortClusters_sorted [of _ _ cls]
    by (intro exI [of _ "sortClusters cls"]) (simp add: sortClusters_set)
qed

theorem extraction_counts_sorted_witness:
  "(\<forall>i. 0 \<le> halves i \<and> halves i < 1) \<and> (1 :: int) \<le> 2 \<and>
   dominantClusters halves fourPixels 2 =
     Some [\<lparr>center = \<lparr>rgbR = 147, rgbG = 33, rgbB = 90\<rparr>, members = 3\<rparr>,
           \<lparr>center = \<lparr>rgbR = 30, rgbG = 200, rgbB = 30\<rparr>, members = 1\<rparr>] \<and>
   extractColorsFromImage culoriModel halves fourPixels 2 =
     Some (clusterColors culoriModel
       [\<lparr>center = \<lparr>rgbR = 147, rgbG = 33, rgbB = 90\<rparr>, members = 3\<rparr>,
        \<lparr>center = \<lparr>rgbR = 30, rgbG = 200, rgbB = 30\<rparr>, members = 1\<rparr>]) \<and>
   length (clusterColors culoriModel
       [\<lparr>center = \<lparr>rgbR = 147, rgbG = 33, rgbB = 90\<rparr>, members = 3\<rparr>,
        \<lparr>center = \<lparr>rgbR = 30, rgbG = 200, rgbB = 30\<rparr>, members = 1\<rparr>]) = 2 \<and>
   members (\<lparr>center = \<lparr>rgbR = 30, rgbG = 200, rgbB = 30\<rparr>, members = 1\<rparr>)
     \<le> members (\<lparr>center = \<lparr>rgbR = 147, rgbG = 33, rgbB = 90\<rparr>, members = 3\<rparr>)"
  using extraction_counts_sorted [OF halves_unit, of 2 fourPixels culoriModel]
    halves_unit four_dominant four_colors
  by simp

text \<open>
  C10.  For every list of pixels and every \<open>k\<close> of at least 1, \<open>kMeansClustering\<close> returns,
  and the member counts of the clusters it returns add up to the number of pixels: every
  pixel is counted in one cluster, and dropping the empty clusters loses none.
  \<open>Math.random()\<close> returns numbers from 0 up to, but not including, 1.
\<close>

theorem kMeans_counts_sum:
  assumes "\<forall>i. 0 \<le> src i \<and> src i < 1" and "1 \<le> k"
  shows "\<exists>clusters. kMeansClustering src pixels k iterations = Some clusters \<and>
    sum_list (map members clusters) = length pixels"
  using assms by (rule kMeans_returns)

theorem kMeans_counts_sum_witness:
  "(\<forall>i. 0 \<le> halves i \<and> halves i < 1) \<and> (1 :: int) \<le> 2 \<and>
   kMeansClustering halves (getPixelsFromImageData fourPixels) 2 10 =
     Some [\<lparr>center = \<lparr>rgbR = 147, rgbG = 33, rgbB = 90\<rparr>, members = 3\<rparr>,
           \<lparr>center = \<lparr>rgbR = 30, rgbG = 200, rgbB = 30\<rparr>, members = 1\<rparr>] \<and>
   sum_list (map members
     [\<lparr>center = \<lparr>rgbR = 147, rgbG = 33, rgbB = 90\<rparr>, members = 3\<rparr>,
      \<lparr>center = \<lparr>rgbR = 30, rgbG = 200, rgbB = 30\<rparr>, members = 1\<rparr>]) = length (getPixelsFromImageData fourPixels)"
  using kMeans_counts_sum [OF halves_unit, of 2 "getPixelsFromImageData fourPixels" 10]
    halves_unit four_clusters [of 9]
  by simp

end
